theory Spec2Isabelle
  imports Complex_Main "HOL-Library.Word"
begin

section \<open>Strings as the source uses them\<close>

text \<open>
  Python \<^verbatim>\<open>str\<close> values are modelled as \<^typ>\<open>string\<close> (ASCII text), \<^verbatim>\<open>bytes\<close> as lists of
  octets. The helpers below are the few \<^verbatim>\<open>str\<close> methods the document service calls.
\<close>

type_synonym bytes = "8 word list"

text \<open>\<^verbatim>\<open>s.startswith(p)\<close>\<close>

definition startswith :: "string \<Rightarrow> string \<Rightarrow> bool" where
  "startswith s p = (take (length p) s = p)"

text \<open>\<^verbatim>\<open>p in s\<close> for strings: \<^verbatim>\<open>p\<close> occurs in \<^verbatim>\<open>s\<close> as a contiguous run.\<close>

fun str_in :: "string \<Rightarrow> string \<Rightarrow> bool" where
  "str_in p [] = (p = [])"
| "str_in p (c # cs) = (startswith (c # cs) p \<or> str_in p cs)"

text \<open>
  \<^verbatim>\<open>s.replace(old, '')\<close>: the occurrences of \<^verbatim>\<open>old\<close> are found from the left, without overlap,
  and dropped. (For an empty \<^verbatim>\<open>old\<close> nothing is dropped.)
\<close>

function str_remove :: "string \<Rightarrow> string \<Rightarrow> string" where
  "str_remove old s =
     (if s = [] then []
      else if old \<noteq> [] \<and> startswith s old then str_remove old (drop (length old) s)
      else hd s # str_remove old (tl s))"
  by pat_completeness auto
termination
  by (relation "measure (\<lambda>(old, s). length s)") auto

declare str_remove.simps [simp del]

text \<open>\<^verbatim>\<open>s.lower()\<close> on ASCII text.\<close>

definition lower_char :: "char \<Rightarrow> char" where
  "lower_char c =
     (let n = (of_char c :: nat)
      in if 65 \<le> n \<and> n \<le> 90 then char_of (n + 32) else c)"

definition lower :: "string \<Rightarrow> string" where
  "lower s = map lower_char s"

section \<open>utils/file\_validator.py: sanitize\_filename\<close>

text \<open>
  \<^verbatim>\<open>os.path.basename\<close> (POSIX): everything after the last \<^verbatim>\<open>/\<close>.
\<close>

definition basename :: "string \<Rightarrow> string" where
  "basename p = rev (takeWhile (\<lambda>c. c \<noteq> CHR ''/'') (rev p))"

definition forbidden_chars :: "string list" where
  "forbidden_chars =
     [''/'', [CHR 0x5C], ''..'', '';'', ''&'', ''|'', ''*'', ''?'', ''<'', ''>'', ''^'', ''$'']"

text \<open>
  \<^verbatim>\<open>for char in forbidden_chars: filename = filename.replace(char, '')\<close>: the entries are
  removed one after the other, each from the result of the previous removal.
\<close>

definition sanitize_filename :: "string \<Rightarrow> string" where
  "sanitize_filename filename =
     foldl (\<lambda>name char. str_remove char name) (basename filename) forbidden_chars"

section \<open>Exceptions and their text\<close>

text \<open>
  Every \<^verbatim>\<open>raise\<close> of the source is a value of \<^typ>\<open>'e + 'a\<close> with \<open>Inl\<close> the exception. The
  constructors are the exception classes that occur; \<open>LibraryError\<close> stands for whatever a
  collaborator library (libmagic, clamd, the database driver) raises.
\<close>

datatype exn =
    ValueError string
  | KeyError string
  | OverflowError string
  | ClientError string
  | LibraryError string
  | ValidationError string
  | TypeError string
  | HTTPException nat string
  | RetryError exn

fun digit_char :: "nat \<Rightarrow> char" where
  "digit_char d = ''0123456789abcdef'' ! (d mod 16)"

fun str_nat :: "nat \<Rightarrow> string" where
  "str_nat n = (if n < 10 then [digit_char n] else str_nat (n div 10) @ [digit_char (n mod 10)])"

declare str_nat.simps [simp del]

definition str_int :: "int \<Rightarrow> string" where
  "str_int i = (if i < 0 then CHR ''-'' # str_nat (nat (- i)) else str_nat (nat i))"

text \<open>
  \<^verbatim>\<open>str(e)\<close>. A \<^verbatim>\<open>KeyError\<close> prints the \<^verbatim>\<open>repr\<close> of its key. The text of a \<^verbatim>\<open>RetryError\<close> embeds
  the \<^verbatim>\<open>repr\<close> of a future; no function modelled here prints one.
\<close>

fun str_exn :: "exn \<Rightarrow> string" where
  "str_exn (ValueError m) = m"
| "str_exn (KeyError k) = [CHR 0x27] @ k @ [CHR 0x27]"
| "str_exn (OverflowError m) = m"
| "str_exn (ClientError m) = m"
| "str_exn (LibraryError m) = m"
| "str_exn (ValidationError m) = m"
| "str_exn (TypeError m) = m"
| "str_exn (HTTPException c d) = str_nat c @ '': '' @ d"
| "str_exn (RetryError e) = ''RetryError['' @ str_exn e @ '']''"

section \<open>config.py: the settings the validator reads\<close>

text \<open>
  \<^verbatim>\<open>service_config\<close> is a dictionary; an entry is \<open>None\<close> when the dictionary has no such key,
  and \<^verbatim>\<open>service_config['k']\<close> then raises \<^verbatim>\<open>KeyError\<close>.
\<close>

record service_config =
  allowed_mime_types :: "string list option"
  max_file_size_mb :: "int option"
  virus_scan_enabled :: "bool option"
  content_validation_rules :: "(string \<times> int) list option"

text \<open>
  The dictionary \<^verbatim>\<open>load_config\<close> builds under its default environment. It holds
  \<^verbatim>\<open>max_file_size_mb\<close> in \<^verbatim>\<open>storage_config\<close> only, not in the \<^verbatim>\<open>service_config\<close> the validator
  imports.
\<close>

definition default_allowed_mime_types :: "string list" where
  "default_allowed_mime_types =
     [''application/pdf'', ''image/jpeg'', ''image/png'', ''application/msword'',
      ''application/vnd.openxmlformats-officedocument.wordprocessingml.document'']"

definition default_service_config :: service_config where
  "default_service_config =
     \<lparr> allowed_mime_types = Some default_allowed_mime_types,
       max_file_size_mb = None,
       virus_scan_enabled = Some True,
       content_validation_rules =
         Some [(''max_pages'', 50), (''min_dpi'', 300), (''max_image_dimension'', 4096)] \<rparr>"

section \<open>utils/file\_validator.py\<close>

text \<open>
  The collaborators of the validator: libmagic's content sniffing, the ClamAV daemon
  (the first value of the scan's result dictionary: a status and a signature), SHA-256,
  and the milliseconds the clock measures for one validation.
\<close>

record validator_env =
  magic_from_buffer :: "bytes \<Rightarrow> exn + string"
  clamd_instream :: "bytes \<Rightarrow> exn + string \<times> string option"
  sha256_hexdigest :: "bytes \<Rightarrow> string"
  elapsed_ms :: nat

subsection \<open>validate\_mime\_type\<close>

text \<open>
  The body catches every exception and returns a verdict, so the \<^verbatim>\<open>@retry\<close> around
  \<^verbatim>\<open>validate_mime_type\<close> never sees a failure and the function runs once.
\<close>

definition validate_mime_type ::
  "validator_env \<Rightarrow> service_config \<Rightarrow> bytes \<Rightarrow> string \<Rightarrow> bool \<times> string" where
  "validate_mime_type env cfg file_content claimed_mime_type =
     (case magic_from_buffer env file_content of
        Inl e \<Rightarrow> (False, ''MIME type validation error: '' @ str_exn e)
      | Inr detected_mime_type \<Rightarrow>
          if lower detected_mime_type \<noteq> lower claimed_mime_type
          then (False, ''MIME type mismatch: claimed '' @ claimed_mime_type @
                       '', detected '' @ detected_mime_type)
          else (case allowed_mime_types cfg of
                  None \<Rightarrow>
                    (False, ''MIME type validation error: '' @
                            str_exn (KeyError ''allowed_mime_types''))
                | Some allowed \<Rightarrow>
                    if lower detected_mime_type \<notin> set (map lower allowed)
                    then (False, ''MIME type '' @ detected_mime_type @ '' not allowed'')
                    else (True, [])))"

subsection \<open>validate\_file\_size\<close>

text \<open>\<^verbatim>\<open>int.bit_length\<close>\<close>

fun bit_length :: "nat \<Rightarrow> nat" where
  "bit_length n = (if n = 0 then 0 else Suc (bit_length (n div 2)))"

declare bit_length.simps [simp del]

text \<open>
  The integer with a 53-bit significand nearest to \<open>n\<close>, ties to the even significand:
  what converting to an IEEE double keeps of \<open>n\<close>.
\<close>

definition nearest53 :: "nat \<Rightarrow> nat" where
  "nearest53 n =
     (let b = bit_length n in
      if b \<le> 53 then n
      else let s = b - 53; q = n div 2 ^ s; r = n mod 2 ^ s; half = 2 ^ (s - 1)
           in (if r > half \<or> (r = half \<and> odd q) then q + 1 else q) * 2 ^ s)"

text \<open>
  \<^verbatim>\<open>file_size_bytes / (1024 * 1024)\<close>: true division of two ints gives the double nearest to
  the quotient. The divisor is a power of two, so only the exponent moves: the result is
  the double nearest to \<open>n\<close>, over \<open>2^20\<close>. A double is modelled by the rational it denotes;
  a quotient beyond the range of doubles raises \<^verbatim>\<open>OverflowError\<close>.
\<close>

definition bytes_to_mb :: "nat \<Rightarrow> exn + rat" where
  "bytes_to_mb file_size_bytes =
     (let m = nearest53 file_size_bytes in
      if m \<ge> 2 ^ 1044 then Inl (OverflowError ''integer division result too large for a float'')
      else Inr (of_nat m / (1024 * 1024)))"

text \<open>\<^verbatim>\<open>f"{x:.2f}"\<close> for a double \<open>x \<ge> 0\<close>: two decimals, the nearest, ties to even.\<close>

definition fmt_2f :: "rat \<Rightarrow> string" where
  "fmt_2f x =
     (let q = x * 100; f = nat \<lfloor>q\<rfloor>; frac = q - of_nat f;
          r = (if frac > 1 / 2 \<or> (frac = 1 / 2 \<and> odd f) then f + 1 else f)
      in str_nat (r div 100) @ ''.'' @ [digit_char (r mod 100 div 10), digit_char (r mod 10)])"

definition validate_file_size :: "service_config \<Rightarrow> nat \<Rightarrow> exn + bool \<times> string" where
  "validate_file_size cfg file_size_bytes =
     (case bytes_to_mb file_size_bytes of
        Inl e \<Rightarrow> Inl e
      | Inr file_size_mb \<Rightarrow>
          (case max_file_size_mb cfg of
             None \<Rightarrow> Inl (KeyError ''max_file_size_mb'')
           | Some max_size_mb \<Rightarrow>
               if file_size_mb > of_int max_size_mb
               then Inr (False, ''File size '' @ fmt_2f file_size_mb @
                                ''MB exceeds maximum allowed size of '' @ str_int max_size_mb @ ''MB'')
               else Inr (True, [])))"

subsection \<open>generate\_file\_hash, scan\_for\_viruses\<close>

definition generate_file_hash :: "validator_env \<Rightarrow> bytes \<Rightarrow> string" where
  "generate_file_hash env file_content = sha256_hexdigest env file_content"

definition str_option :: "string option \<Rightarrow> string" where
  "str_option v = (case v of None \<Rightarrow> ''None'' | Some s \<Rightarrow> s)"

definition scan_for_viruses :: "validator_env \<Rightarrow> bytes \<Rightarrow> bool \<times> string" where
  "scan_for_viruses env file_content =
     (case clamd_instream env file_content of
        Inl e \<Rightarrow> (False, ''Virus scan error: '' @ str_exn e)
      | Inr scan_status \<Rightarrow>
          if fst scan_status = ''OK'' then (True, [])
          else (False, ''Virus detected: '' @ str_option (snd scan_status)))"

subsection \<open>validate\_file\<close>

record metadata =
  md_original_filename :: string
  md_sanitized_filename :: string
  md_file_size_bytes :: nat
  md_mime_type :: string
  md_file_hash :: string
  md_validation_time_ms :: nat

text \<open>The \<^verbatim>\<open>except Exception\<close> branch of \<^verbatim>\<open>validate_file\<close>.\<close>

definition file_validation_error ::
  "validator_env \<Rightarrow> exn \<Rightarrow> metadata \<Rightarrow> bool \<times> string \<times> metadata" where
  "file_validation_error env e md =
     (False, ''File validation error: '' @ str_exn e,
      md\<lparr>md_validation_time_ms := elapsed_ms env\<rparr>)"

definition validate_file ::
  "validator_env \<Rightarrow> service_config \<Rightarrow> bytes \<Rightarrow> string \<Rightarrow> string \<Rightarrow> bool \<times> string \<times> metadata" where
  "validate_file env cfg file_content mime_type file_name =
     (let md0 = \<lparr> md_original_filename = file_name, md_sanitized_filename = [],
                  md_file_size_bytes = length file_content, md_mime_type = mime_type,
                  md_file_hash = [], md_validation_time_ms = 0 \<rparr>
      in if file_content = [] then (False, ''Empty file content'', md0)
         else
           let md1 = md0\<lparr>md_sanitized_filename := sanitize_filename file_name\<rparr>;
               mime = validate_mime_type env cfg file_content mime_type
           in if \<not> fst mime then (False, snd mime, md1)
              else
                (case validate_file_size cfg (length file_content) of
                   Inl e \<Rightarrow> file_validation_error env e md1
                 | Inr size_verdict \<Rightarrow>
                     if \<not> fst size_verdict then (False, snd size_verdict, md1)
                     else
                       let md2 = md1\<lparr>md_file_hash := generate_file_hash env file_content\<rparr>;
                           virus = (if virus_scan_enabled cfg \<noteq> Some False
                                    then scan_for_viruses env file_content else (True, []))
                       in if \<not> fst virus then (False, snd virus, md2)
                          else
                            (case content_validation_rules cfg of
                               None \<Rightarrow>
                                 file_validation_error env (KeyError ''content_validation_rules'') md2
                             | Some rules \<Rightarrow>
                                 (True, [], md2\<lparr>md_validation_time_ms := elapsed_ms env\<rparr>))))"

section \<open>models/document.py\<close>

subsection \<open>UUIDs\<close>

text \<open>
  A \<^verbatim>\<open>uuid.UUID\<close> is its 128-bit integer. \<^verbatim>\<open>str(u)\<close> is the 32 hexadecimal digits of the
  integer, grouped 8-4-4-4-12 with hyphens.
\<close>

type_synonym uuid = "128 word"

fun hex_digits :: "nat \<Rightarrow> nat \<Rightarrow> string" where
  "hex_digits 0 n = []"
| "hex_digits (Suc k) n = hex_digits k (n div 16) @ [digit_char (n mod 16)]"

definition str_uuid :: "uuid \<Rightarrow> string" where
  "str_uuid u =
     (let h = hex_digits 32 (unat u)
      in take 8 h @ ''-'' @ take 4 (drop 8 h) @ ''-'' @ take 4 (drop 12 h) @ ''-'' @
         take 4 (drop 16 h) @ ''-'' @ drop 20 h)"

subsection \<open>The record\<close>

datatype DocumentStatus = PENDING | UPLOADED | FAILED | DELETED

datatype VerificationStatus = UNVERIFIED | VERIFIED | REJECTED

text \<open>A \<^verbatim>\<open>datetime\<close>: seconds since the epoch and whether its \<^verbatim>\<open>tzinfo\<close> is \<^verbatim>\<open>timezone.utc\<close>.\<close>

datatype tzinfo = TzNaive | TzUtc | TzOther

record datetime =
  dt_seconds :: int
  dt_tzinfo :: tzinfo

text \<open>
  The fields of \<^verbatim>\<open>Document\<close>, each with the type its field class declares. (The field
  \<^verbatim>\<open>id\<close> is \<open>doc_id\<close> here.)
\<close>

record document =
  doc_id :: uuid
  application_id :: uuid
  file_name :: string
  mime_type :: string
  storage_path :: string
  file_size :: int
  uploaded_at :: datetime
  status :: DocumentStatus
  verification_status :: VerificationStatus

definition ALLOWED_MIME_TYPES :: "string list" where
  "ALLOWED_MIME_TYPES =
     [''application/pdf'', ''image/jpeg'', ''image/png'', ''application/msword'',
      ''application/vnd.openxmlformats-officedocument.wordprocessingml.document'']"

definition MAX_FILE_SIZE_MB :: int where
  "MAX_FILE_SIZE_MB = 50"

subsection \<open>Document.\_\_init\_\_\<close>

text \<open>
  The keyword arguments of the constructor. The five keys the constructor defaults are
  optional; the others are the required fields.
\<close>

record document_kwargs =
  kw_id :: "uuid option"
  kw_application_id :: uuid
  kw_file_name :: string
  kw_mime_type :: string
  kw_storage_path :: "string option"
  kw_file_size :: int
  kw_uploaded_at :: "datetime option"
  kw_status :: "DocumentStatus option"
  kw_verification_status :: "VerificationStatus option"

text \<open>\<^verbatim>\<open>re.sub(r'[^a-zA-Z0-9._-]', '_', file_name)\<close>\<close>

definition safe_char :: "char \<Rightarrow> bool" where
  "safe_char c =
     (let n = (of_char c :: nat)
      in (97 \<le> n \<and> n \<le> 122) \<or> (65 \<le> n \<and> n \<le> 90) \<or> (48 \<le> n \<and> n \<le> 57) \<or>
         c = CHR ''.'' \<or> c = CHR ''_'' \<or> c = CHR ''-'')"

definition safe_filename :: "string \<Rightarrow> string" where
  "safe_filename name = map (\<lambda>c. if safe_char c then c else CHR ''_'') name"

text \<open>
  \<open>fresh\<close> and \<open>now\<close> are what \<^verbatim>\<open>uuid.uuid4()\<close> and \<^verbatim>\<open>datetime.now(timezone.utc)\<close> return when
  the constructor evaluates its defaults.
\<close>

definition Document_init :: "uuid \<Rightarrow> datetime \<Rightarrow> document_kwargs \<Rightarrow> document" where
  "Document_init fresh now kw =
     (let i = (case kw_id kw of Some i \<Rightarrow> i | None \<Rightarrow> fresh)
      in \<lparr> doc_id = i,
           application_id = kw_application_id kw,
           file_name = kw_file_name kw,
           mime_type = kw_mime_type kw,
           storage_path =
             (case kw_storage_path kw of
                Some p \<Rightarrow> p
              | None \<Rightarrow> ''documents/'' @ str_uuid i @ ''/'' @ safe_filename (kw_file_name kw)),
           file_size = kw_file_size kw,
           uploaded_at = (case kw_uploaded_at kw of Some t \<Rightarrow> t | None \<Rightarrow> now),
           status = (case kw_status kw of Some s \<Rightarrow> s | None \<Rightarrow> PENDING),
           verification_status =
             (case kw_verification_status kw of Some v \<Rightarrow> v | None \<Rightarrow> UNVERIFIED) \<rparr>)"

subsection \<open>Document.validate\<close>

text \<open>
  Each check raises \<^verbatim>\<open>ValidationError\<close>; the enclosing \<^verbatim>\<open>except Exception\<close> raises it again
  with a prefix. The UUID and enum checks cannot fail on a value of the field's type.
\<close>

definition document_invalid :: "string \<Rightarrow> exn + bool" where
  "document_invalid msg = Inl (ValidationError (''Document validation failed: '' @ msg))"

definition Document_validate :: "document \<Rightarrow> exn + bool" where
  "Document_validate document =
     (if file_name document = [] \<or> str_in ''..'' (file_name document) \<or>
         str_in ''/'' (file_name document)
      then document_invalid ''Invalid file name''
      else if mime_type document \<notin> set ALLOWED_MIME_TYPES
      then document_invalid (''Unsupported MIME type: '' @ mime_type document)
      else if \<not> (0 \<le> file_size document \<and> file_size document \<le> MAX_FILE_SIZE_MB * 1024 * 1024)
      then document_invalid (''File size exceeds '' @ str_int MAX_FILE_SIZE_MB @ ''MB limit'')
      else if \<not> startswith (storage_path document) ''documents/'' \<or>
              str_in ''..'' (storage_path document)
      then document_invalid ''Invalid storage path''
      else if dt_tzinfo (uploaded_at document) \<noteq> TzUtc
      then document_invalid ''Invalid upload timestamp''
      else Inr True)"

section \<open>The two backends\<close>

text \<open>
  The object store maps keys to objects; the metadata store is the collection of
  document records in the order its queries return them. \<open>faults\<close> scripts the backend
  calls to come: each call takes the head, \<open>Some m\<close> makes the call raise the backend's
  exception with the text \<open>m\<close> (\<^verbatim>\<open>ClientError\<close> for the object store, \<open>LibraryError\<close> for the
  database), and once the script is used up every call goes through. \<open>calls\<close> records,
  oldest first, what the service has invoked: a validation, a call of the object store, a
  query, a \<^verbatim>\<open>save()\<close> with the record it was called on, a wait.
\<close>

record s3_object =
  obj_body :: bytes
  obj_content_type :: string
  obj_server_side_encryption :: string
  obj_metadata :: "(string \<times> string) list"

datatype call =
    ValidateFile
  | PutObject string
  | GetObject string
  | DeleteObject string
  | FindDocument
  | SaveDocument document
  | Sleep nat

record world =
  s3_objects :: "string \<rightharpoonup> s3_object"
  mongo_docs :: "document list"
  faults :: "string option list"
  uuid_supply :: "nat \<Rightarrow> uuid"
  uuid_drawn :: nat
  clock :: int
  calls :: "call list"

definition record_call :: "call \<Rightarrow> world \<Rightarrow> world" where
  "record_call c w = w\<lparr>calls := calls w @ [c]\<rparr>"

definition next_fault :: "world \<Rightarrow> string option \<times> world" where
  "next_fault w = (case faults w of [] \<Rightarrow> (None, w) | f # fs \<Rightarrow> (f, w\<lparr>faults := fs\<rparr>))"

text \<open>\<^verbatim>\<open>uuid.uuid4()\<close> and \<^verbatim>\<open>datetime.now(timezone.utc)\<close>\<close>

definition uuid4 :: "world \<Rightarrow> uuid \<times> world" where
  "uuid4 w = (uuid_supply w (uuid_drawn w), w\<lparr>uuid_drawn := Suc (uuid_drawn w)\<rparr>)"

definition now_utc :: "world \<Rightarrow> datetime" where
  "now_utc w = \<lparr> dt_seconds = clock w, dt_tzinfo = TzUtc \<rparr>"

definition put_object :: "string \<Rightarrow> s3_object \<Rightarrow> world \<Rightarrow> (exn + unit) \<times> world" where
  "put_object key obj w =
     (case next_fault (record_call (PutObject key) w) of
        (Some m, w') \<Rightarrow> (Inl (ClientError m), w')
      | (None, w') \<Rightarrow> (Inr (), w'\<lparr>s3_objects := (s3_objects w')(key \<mapsto> obj)\<rparr>))"

definition get_object :: "string \<Rightarrow> world \<Rightarrow> (exn + s3_object) \<times> world" where
  "get_object key w =
     (case next_fault (record_call (GetObject key) w) of
        (Some m, w') \<Rightarrow> (Inl (ClientError m), w')
      | (None, w') \<Rightarrow>
          (case s3_objects w' key of
             None \<Rightarrow> (Inl (ClientError ''NoSuchKey''), w')
           | Some obj \<Rightarrow> (Inr obj, w')))"

definition delete_object :: "string \<Rightarrow> world \<Rightarrow> (exn + unit) \<times> world" where
  "delete_object key w =
     (case next_fault (record_call (DeleteObject key) w) of
        (Some m, w') \<Rightarrow> (Inl (ClientError m), w')
      | (None, w') \<Rightarrow> (Inr (), w'\<lparr>s3_objects := (s3_objects w')(key := None)\<rparr>))"

text \<open>\<^verbatim>\<open>Document.objects(...).first()\<close>\<close>

definition objects_first :: "(document \<Rightarrow> bool) \<Rightarrow> world \<Rightarrow> (exn + document option) \<times> world" where
  "objects_first p w =
     (case next_fault (record_call FindDocument w) of
        (Some m, w') \<Rightarrow> (Inl (LibraryError m), w')
      | (None, w') \<Rightarrow> (Inr (find p (mongo_docs w')), w'))"

text \<open>
  \<^verbatim>\<open>document.save()\<close>. The save of the database library starts with
  \<^verbatim>\<open>self.validate(clean=clean)\<close>, and the class replaces the library's \<^verbatim>\<open>validate\<close> by the
  class method \<^verbatim>\<open>validate(cls, document)\<close>, which takes no \<^verbatim>\<open>clean\<close>: every \<^verbatim>\<open>save()\<close> raises
  \<^verbatim>\<open>TypeError\<close> before it reaches the database, and the collection stays as it is.
\<close>

definition save_type_error :: exn where
  "save_type_error =
     TypeError (''Document.validate() got an unexpected keyword argument '' @
                [CHR 0x27] @ ''clean'' @ [CHR 0x27])"

definition save :: "document \<Rightarrow> world \<Rightarrow> (exn + unit) \<times> world" where
  "save d w = (Inl save_type_error, record_call (SaveDocument d) w)"

text \<open>The calls that write to a backend, or would.\<close>

fun is_write :: "call \<Rightarrow> bool" where
  "is_write (PutObject k) = True"
| "is_write (DeleteObject k) = True"
| "is_write (SaveDocument d) = True"
| "is_write c = False"

section \<open>tenacity: the retry decorator\<close>

text \<open>
  \<^verbatim>\<open>wait_exponential(multiplier, min, max)\<close>: the wait after the attempt numbered
  \<open>attempt_number\<close> (from 1) is \<^verbatim>\<open>max(max(0, min), min(multiplier * 2 ** (attempt_number - 1), max))\<close>.
\<close>

definition wait_exponential :: "nat \<Rightarrow> nat \<Rightarrow> nat \<Rightarrow> nat \<Rightarrow> nat" where
  "wait_exponential multiplier lo hi attempt_number =
     max (max 0 lo) (min (multiplier * 2 ^ (attempt_number - 1)) hi)"

definition sleep :: "nat \<Rightarrow> world \<Rightarrow> world" where
  "sleep secs w = (record_call (Sleep secs) w)\<lparr>clock := clock w + int secs\<rparr>"

text \<open>
  \<^verbatim>\<open>@retry(stop=stop_after_attempt(n), wait=...)\<close> around \<open>fn\<close>: the call is repeated after
  any exception (the decorator's default condition), with a sleep in between, until it
  returns or the attempt numbered \<open>n\<close> has failed; then \<^verbatim>\<open>RetryError\<close> is raised, holding the
  last exception.
\<close>

function retrying ::
  "nat \<Rightarrow> (nat \<Rightarrow> nat) \<Rightarrow> nat \<Rightarrow> (world \<Rightarrow> (exn + 'a) \<times> world) \<Rightarrow> world \<Rightarrow> (exn + 'a) \<times> world"
where
  "retrying stop_after wait attempt_number fn w =
     (case fn w of
        (Inr v, w') \<Rightarrow> (Inr v, w')
      | (Inl e, w') \<Rightarrow>
          if attempt_number \<ge> stop_after then (Inl (RetryError e), w')
          else retrying stop_after wait (Suc attempt_number) fn (sleep (wait attempt_number) w'))"
  by pat_completeness auto
termination
  by (relation "measure (\<lambda>(stop_after, wait, attempt_number, fn, w). stop_after - attempt_number)")
     auto

declare retrying.simps [simp del]

text \<open>
  The decorator as the storage service writes it on \<^verbatim>\<open>upload_file\<close>, \<^verbatim>\<open>download_file\<close> and
  \<^verbatim>\<open>delete_file\<close>: \<^verbatim>\<open>stop_after_attempt(3)\<close>, \<^verbatim>\<open>wait_exponential(multiplier=1, min=4, max=10)\<close>.
\<close>

definition retry :: "(world \<Rightarrow> (exn + 'a) \<times> world) \<Rightarrow> world \<Rightarrow> (exn + 'a) \<times> world" where
  "retry fn w = retrying 3 (wait_exponential 1 4 10) 1 fn w"

section \<open>services/storage\_service.py\<close>

definition encryption_algorithm :: string where
  "encryption_algorithm = ''AES256''"

text \<open>The check each operation makes on a storage path before it touches the store.\<close>

definition invalid_storage_path :: "string \<Rightarrow> bool" where
  "invalid_storage_path path =
     (\<not> startswith path ''documents/'' \<or> str_in ''..'' path)"

subsection \<open>upload\_file\<close>

text \<open>
  The body of \<^verbatim>\<open>upload_file\<close>, one attempt. \<^verbatim>\<open>Document(...)\<close> draws a UUID for the default
  of \<^verbatim>\<open>id\<close> although the id is given.
\<close>

definition upload_file_body ::
  "validator_env \<Rightarrow> service_config \<Rightarrow> bytes \<Rightarrow> string \<Rightarrow> string \<Rightarrow> uuid \<Rightarrow> world
     \<Rightarrow> (exn + document) \<times> world" where
  "upload_file_body env cfg file_content name claimed_type app_id w =
     (let w0 = record_call ValidateFile w;
          verdict = validate_file env cfg file_content claimed_type name;
          metadata = snd (snd verdict)
      in if \<not> fst verdict
         then (Inl (ValueError (''File validation failed: '' @ fst (snd verdict))), w0)
         else
           (case uuid4 w0 of (document_id, w1) \<Rightarrow>
              let path = ''documents/'' @ str_uuid app_id @ ''/'' @
                         str_uuid document_id @ ''/'' @ md_sanitized_filename metadata
              in (case put_object path
                         \<lparr> obj_body = file_content, obj_content_type = claimed_type,
                           obj_server_side_encryption = encryption_algorithm,
                           obj_metadata = [(''file_hash'', md_file_hash metadata),
                                           (''application_id'', str_uuid app_id)] \<rparr> w1 of
                    (Inl e, w2) \<Rightarrow> (Inl e, w2)
                  | (Inr u, w2) \<Rightarrow>
                      (case uuid4 w2 of (fresh, w3) \<Rightarrow>
                         let document = Document_init fresh (now_utc w3)
                               \<lparr> kw_id = Some document_id,
                                 kw_application_id = app_id,
                                 kw_file_name = md_sanitized_filename metadata,
                                 kw_mime_type = claimed_type,
                                 kw_storage_path = Some path,
                                 kw_file_size = int (length file_content),
                                 kw_uploaded_at = None,
                                 kw_status = Some UPLOADED,
                                 kw_verification_status = Some UNVERIFIED \<rparr>
                         in (case Document_validate document of
                               Inl e \<Rightarrow> (Inl e, w3)
                             | Inr ok \<Rightarrow>
                                 (case save document w3 of
                                    (Inl e, w4) \<Rightarrow> (Inl e, w4)
                                  | (Inr u', w4) \<Rightarrow> (Inr document, w4)))))))"

definition upload_file ::
  "validator_env \<Rightarrow> service_config \<Rightarrow> bytes \<Rightarrow> string \<Rightarrow> string \<Rightarrow> uuid \<Rightarrow> world
     \<Rightarrow> (exn + document) \<times> world" where
  "upload_file env cfg file_content name claimed_type app_id =
     retry (upload_file_body env cfg file_content name claimed_type app_id)"

subsection \<open>download\_file\<close>

definition download_file_body ::
  "validator_env \<Rightarrow> string \<Rightarrow> world \<Rightarrow> (exn + bytes \<times> string) \<times> world" where
  "download_file_body env path w =
     (if invalid_storage_path path then (Inl (ValueError ''Invalid storage path''), w)
      else
        (case get_object path w of
           (Inl e, w1) \<Rightarrow> (Inl e, w1)
         | (Inr response, w1) \<Rightarrow>
             let content = obj_body response;
                 content_type = obj_content_type response;
                 stored_hash = map_of (obj_metadata response) ''file_hash''
             in (case stored_hash of
                   None \<Rightarrow> (Inr (content, content_type), w1)
                 | Some h \<Rightarrow>
                     if h \<noteq> [] \<and> h \<noteq> generate_file_hash env content
                     then (Inl (ValueError ''File integrity check failed''), w1)
                     else (Inr (content, content_type), w1))))"

definition download_file ::
  "validator_env \<Rightarrow> string \<Rightarrow> world \<Rightarrow> (exn + bytes \<times> string) \<times> world" where
  "download_file env path = retry (download_file_body env path)"

subsection \<open>delete\_file\<close>

definition delete_file_body :: "string \<Rightarrow> world \<Rightarrow> (exn + bool) \<times> world" where
  "delete_file_body path w =
     (if invalid_storage_path path then (Inl (ValueError ''Invalid storage path''), w)
      else
        (case delete_object path w of
           (Inl e, w1) \<Rightarrow> (Inl e, w1)
         | (Inr u, w1) \<Rightarrow>
             (case objects_first (\<lambda>d. storage_path d = path) w1 of
                (Inl e, w2) \<Rightarrow> (Inl e, w2)
              | (Inr None, w2) \<Rightarrow> (Inr True, w2)
              | (Inr (Some document), w2) \<Rightarrow>
                  (case save (document\<lparr>status := DELETED\<rparr>) w2 of
                     (Inl e, w3) \<Rightarrow> (Inl e, w3)
                   | (Inr u', w3) \<Rightarrow> (Inr True, w3)))))"


subsection \<open>generate\_presigned\_url\<close>

text \<open>
  The URL the S3 client signs is kept as what it was signed for: the key, the HTTP method
  and the seconds until it expires. Signing is a backend call like the others.
\<close>

record presigned_url =
  url_key :: string
  url_method :: string
  url_expires_in :: int

definition generate_presigned_url :: "string \<Rightarrow> int \<Rightarrow> world \<Rightarrow> (exn + presigned_url) \<times> world" where
  "generate_presigned_url path expiry_seconds w =
     (if invalid_storage_path path then (Inl (ValueError ''Invalid storage path''), w)
      else if \<not> (300 \<le> expiry_seconds \<and> expiry_seconds \<le> 7200)
      then (Inl (ValueError ''Invalid expiry duration''), w)
      else
        (case next_fault w of
           (Some m, w1) \<Rightarrow> (Inl (ClientError m), w1)
         | (None, w1) \<Rightarrow>
             (Inr \<lparr> url_key = path, url_method = ''GET'', url_expires_in = expiry_seconds \<rparr>, w1)))"

section \<open>controllers/document\_controller.py: verify\_document\<close>



section \<open>Concrete inputs\<close>

text \<open>
  A validator environment whose sniffer answers \<^verbatim>\<open>application/pdf\<close> and whose scanner finds
  nothing, one whose sniffer answers \<^verbatim>\<open>application/x-msdownload\<close>, a configuration that
  holds the size limit the validator asks for, and a world with empty stores.
\<close>

definition pdf_env :: validator_env where
  "pdf_env =
     \<lparr> magic_from_buffer = (\<lambda>b. Inr ''application/pdf''),
       clamd_instream = (\<lambda>b. Inr (''OK'', None)),
       sha256_hexdigest = (\<lambda>b. ''9f64a747''),
       elapsed_ms = 5 \<rparr>"

definition exe_env :: validator_env where
  "exe_env = pdf_env\<lparr>magic_from_buffer := (\<lambda>b. Inr ''application/x-msdownload'')\<rparr>"

definition limit_config :: service_config where
  "limit_config = default_service_config\<lparr>max_file_size_mb := Some 100\<rparr>"

definition empty_world :: world where
  "empty_world =
     \<lparr> s3_objects = Map.empty, mongo_docs = [], faults = [], uuid_supply = of_nat,
       uuid_drawn = 0, clock = 0, calls = [] \<rparr>"

text \<open>
  The record an upload of three bytes named \<^verbatim>\<open>report.pdf\<close> for application 7 builds in the
  empty world, an object stored without a content hash, and one stored with a hash that
  is not the hash of its content.
\<close>

definition report_path :: string where
  "report_path =
     ''documents/00000000-0000-0000-0000-000000000007/00000000-0000-0000-0000-000000000000/report.pdf''"

definition report_document :: document where
  "report_document =
     \<lparr> doc_id = 0, application_id = 7, file_name = ''report.pdf'',
       mime_type = ''application/pdf'', storage_path = report_path, file_size = 3,
       uploaded_at = \<lparr> dt_seconds = 0, dt_tzinfo = TzUtc \<rparr>,
       status = UPLOADED, verification_status = UNVERIFIED \<rparr>"

definition unhashed_object :: s3_object where
  "unhashed_object =
     \<lparr> obj_body = [1, 2, 3], obj_content_type = ''application/pdf'',
       obj_server_side_encryption = ''AES256'',
       obj_metadata = [(''application_id'', ''00000000-0000-0000-0000-000000000007'')] \<rparr>"

definition tampered_object :: s3_object where
  "tampered_object = unhashed_object\<lparr>obj_metadata := [(''file_hash'', ''00000000'')]\<rparr>"

definition unhashed_world :: world where
  "unhashed_world = empty_world\<lparr>s3_objects := [report_path \<mapsto> unhashed_object]\<rparr>"

definition tampered_world :: world where
  "tampered_world = empty_world\<lparr>s3_objects := [report_path \<mapsto> tampered_object]\<rparr>"

text \<open>
  The keyword arguments with which the test suite builds its record: an explicit storage
  path, not the one an upload derives.
\<close>

definition epoch_utc :: datetime where
  "epoch_utc = \<lparr> dt_seconds = 0, dt_tzinfo = TzUtc \<rparr>"

definition test_kwargs :: document_kwargs where
  "test_kwargs =
     \<lparr> kw_id = Some 1, kw_application_id = 7, kw_file_name = ''test_document.pdf'',
       kw_mime_type = ''application/pdf'',
       kw_storage_path = Some ''documents/00000000-0000-0000-0000-000000000007/test_document.pdf'',
       kw_file_size = 17, kw_uploaded_at = None, kw_status = Some PENDING,
       kw_verification_status = Some UNVERIFIED \<rparr>"

text \<open>
  A world whose stores hold the record and the object of \<^verbatim>\<open>report.pdf\<close>, as an upload is
  meant to leave them.
\<close>

definition report_object :: s3_object where
  "report_object =
     \<lparr> obj_body = [1, 2, 3], obj_content_type = ''application/pdf'',
       obj_server_side_encryption = ''AES256'',
       obj_metadata = [(''file_hash'', ''9f64a747''),
                       (''application_id'', ''00000000-0000-0000-0000-000000000007'')] \<rparr>"

definition stored_world :: world where
  "stored_world =
     empty_world\<lparr>s3_objects := [report_path \<mapsto> report_object], mongo_docs := [report_document]\<rparr>"

text \<open>The empty world in which the next backend call fails.\<close>

definition faulty_world :: world where
  "faulty_world = empty_world\<lparr>faults := [Some ''SlowDown'']\<rparr>"

section \<open>Properties of the validator\<close>

subsection \<open>Evaluation lemmas\<close>

lemma str_nat_digit: "n < 10 \<Longrightarrow> str_nat n = [digit_char n]"
  by (subst str_nat.simps) simp

lemma str_nat_step: "\<not> n < 10 \<Longrightarrow> str_nat n = str_nat (n div 10) @ [digit_char (n mod 10)]"
  by (subst str_nat.simps) simp

lemma bit_length_0: "bit_length 0 = 0"
  by (simp add: bit_length.simps)

lemma bit_length_pos: "0 < n \<Longrightarrow> bit_length n = Suc (bit_length (n div 2))"
  by (subst bit_length.simps) simp

subsection \<open>Sanitization\<close>

text \<open>
  Removing a single character is a filter, so a second pass can only change a name in
  which \<^verbatim>\<open>..\<close> is left: the sanitizer is idempotent on every name whose sanitized form has no
  two dots in a row.
\<close>

lemma str_remove_Nil: "str_remove old [] = []"
  by (simp add: str_remove.simps)

lemma str_remove_char: "str_remove [c] s = filter (\<lambda>x. x \<noteq> c) s"
proof (induction s)
  case Nil
  then show ?case by (simp add: str_remove_Nil)
next
  case (Cons x xs)
  then show ?case
    by (subst str_remove.simps) (simp add: startswith_def)
qed

lemma str_remove_absent: "\<not> str_in old s \<Longrightarrow> str_remove old s = s"
proof (induction s)
  case Nil
  then show ?case by (simp add: str_remove_Nil)
next
  case (Cons x xs)
  then show ?case
    by (subst str_remove.simps) simp
qed

lemma set_str_remove: "set (str_remove old s) \<subseteq> set s"
proof (induction old s rule: str_remove.induct)
  case (1 old s)
  show ?case
  proof (cases "s = []")
    case True
    then show ?thesis by (simp add: str_remove_Nil)
  next
    case False
    show ?thesis
    proof (cases "old \<noteq> [] \<and> startswith s old")
      case True
      with False "1.IH"(1) have "set (str_remove old (drop (length old) s)) \<subseteq> set (drop (length old) s)"
        by simp
      moreover have "set (drop (length old) s) \<subseteq> set s" by (rule set_drop_subset)
      ultimately show ?thesis using True False by (subst str_remove.simps) auto
    next
      case nomatch: False
      with False "1.IH"(2) have "set (str_remove old (tl s)) \<subseteq> set (tl s)" by simp
      moreover from False have "s = hd s # tl s" by simp
      ultimately show ?thesis using nomatch False
        by (subst str_remove.simps) (auto dest: list.set_sel(2) [OF False])
    qed
  qed
qed

lemma basename_plain:
  assumes "CHR ''/'' \<notin> set s"
  shows "basename s = s"
proof -
  from assms have "\<forall>c \<in> set (rev s). c \<noteq> CHR ''/''" by auto
  then have "takeWhile (\<lambda>c. c \<noteq> CHR ''/'') (rev s) = rev s"
    by (rule takeWhile_eq_all_conv [THEN iffD2])
  then show ?thesis by (simp only: basename_def rev_rev_ident)
qed

lemma sanitize_filename_chars:
  "sanitize_filename f =
     filter (\<lambda>x. x \<notin> set '';&|*?<>^$'')
       (str_remove ''..''
          (filter (\<lambda>x. x \<noteq> CHR 0x5C) (filter (\<lambda>x. x \<noteq> CHR ''/'') (basename f))))"
  by (simp add: sanitize_filename_def forbidden_chars_def str_remove_char)

lemma sanitize_filename_idempotent_unless_dots:
  assumes "\<not> str_in ''..'' (sanitize_filename f)"
  shows "sanitize_filename (sanitize_filename f) = sanitize_filename f"
proof -
  let ?B = "filter (\<lambda>x. x \<noteq> CHR 0x5C) (filter (\<lambda>x. x \<noteq> CHR ''/'') (basename f))"
  let ?r = "sanitize_filename f"
  have r: "?r = filter (\<lambda>x. x \<notin> set '';&|*?<>^$'') (str_remove ''..'' ?B)"
    by (rule sanitize_filename_chars)
  have "set ?r \<subseteq> set (str_remove ''..'' ?B)" unfolding r by auto
  also have "\<dots> \<subseteq> set ?B" by (rule set_str_remove)
  finally have sub: "set ?r \<subseteq> set ?B" .
  then have slash: "CHR ''/'' \<notin> set ?r" and bslash: "CHR 0x5C \<notin> set ?r" by auto
  have meta: "\<forall>x \<in> set ?r. x \<notin> set '';&|*?<>^$''" unfolding r by auto
  have 1: "basename ?r = ?r" by (rule basename_plain [OF slash])
  have 2: "filter (\<lambda>x. x \<noteq> CHR ''/'') ?r = ?r" using slash by (auto simp add: filter_id_conv)
  have 3: "filter (\<lambda>x. x \<noteq> CHR 0x5C) ?r = ?r" using bslash by (auto simp add: filter_id_conv)
  have 4: "str_remove ''..'' ?r = ?r" by (rule str_remove_absent [OF assms])
  have 5: "filter (\<lambda>x. x \<notin> set '';&|*?<>^$'') ?r = ?r" using meta by (simp add: filter_id_conv)
  show ?thesis
    by (subst sanitize_filename_chars) (simp only: 1 2 3 4 5)
qed

text \<open>
  \<^bold>\<open>C7\<close> (filename sanitization is idempotent). The code does not have the property: the
  forbidden entries are removed one after the other, and removing \<^verbatim>\<open>;\<close> after \<^verbatim>\<open>..\<close> joins
  two dots that the earlier pass could not see. On the name \<^verbatim>\<open>.;.\<close> the sanitizer returns
  \<^verbatim>\<open>..\<close>, and sanitizing that returns the empty name.
\<close>

theorem sanitize_filename_twice_differs:
  "sanitize_filename ''.;.'' = ''..'' \<and> sanitize_filename (sanitize_filename ''.;.'') = []"
  by (simp add: sanitize_filename_def basename_def forbidden_chars_def str_remove.simps
      startswith_def)

subsection \<open>The size check\<close>

lemma bit_length_le: "n < 2 ^ k \<Longrightarrow> bit_length n \<le> k"
proof (induction k arbitrary: n)
  case 0
  then show ?case by (simp add: bit_length_0)
next
  case (Suc k)
  show ?case
  proof (cases "n = 0")
    case True
    then show ?thesis by (simp add: bit_length_0)
  next
    case False
    from Suc.prems have "n div 2 < 2 ^ k" by simp
    then have "bit_length (n div 2) \<le> k" by (rule Suc.IH)
    with False show ?thesis by (simp add: bit_length_pos)
  qed
qed

lemma nearest53_exact: "n < 2 ^ 53 \<Longrightarrow> nearest53 n = n"
  using bit_length_le [of n 53] by (simp add: nearest53_def)

lemma bytes_to_mb_exact:
  assumes "n < 2 ^ 53"
  shows "bytes_to_mb n = Inr (of_nat n / (1024 * 1024))"
proof -
  have "(2::nat) ^ 53 \<le> 2 ^ 1044" by (rule power_increasing) simp_all
  with assms have "\<not> n \<ge> 2 ^ 1044" by linarith
  with assms show ?thesis by (simp add: bytes_to_mb_def nearest53_exact Let_def)
qed

lemma validate_file_size_exact:
  assumes "n < 2 ^ 53" and "max_file_size_mb cfg = Some m"
  shows "validate_file_size cfg n =
           (if of_nat n / (1024 * 1024) > (of_int m :: rat)
            then Inr (False, ''File size '' @ fmt_2f (of_nat n / (1024 * 1024)) @
                             ''MB exceeds maximum allowed size of '' @ str_int m @ ''MB'')
            else Inr (True, []))"
  using assms by (simp add: validate_file_size_def bytes_to_mb_exact)

text \<open>
  With an entry for the limit, and below \<open>2^53\<close> bytes, where the conversion to megabytes
  is exact, the check passes at exactly the limit and fails one byte over.
\<close>

lemma validate_file_size_boundary:
  assumes cfg: "max_file_size_mb cfg = Some (int M)"
    and small: "M * 1024 * 1024 + 1 < 2 ^ 53"
  shows "validate_file_size cfg (M * 1024 * 1024) = Inr (True, []) \<and>
         validate_file_size cfg (M * 1024 * 1024 + 1) =
           Inr (False, ''File size '' @ fmt_2f (of_nat (M * 1024 * 1024 + 1) / (1024 * 1024)) @
                       ''MB exceeds maximum allowed size of '' @ str_int (int M) @ ''MB'')"
proof -
  from small have a: "M * 1024 * 1024 < 2 ^ 53" by simp
  have eq: "(of_nat (M * 1024 * 1024) :: rat) / (1024 * 1024) = of_nat M" by simp
  have gt: "(of_nat (M * 1024 * 1024 + 1) :: rat) / (1024 * 1024) > of_int (int M)"
    by (simp add: field_simps)
  have 1: "validate_file_size cfg (M * 1024 * 1024) = Inr (True, [])"
    unfolding validate_file_size_exact [OF a cfg] eq by simp
  have 2: "validate_file_size cfg (M * 1024 * 1024 + 1) =
           Inr (False, ''File size '' @ fmt_2f (of_nat (M * 1024 * 1024 + 1) / (1024 * 1024)) @
                       ''MB exceeds maximum allowed size of '' @ str_int (int M) @ ''MB'')"
    unfolding validate_file_size_exact [OF small cfg] using gt by (simp only: if_True)
  from 1 2 show ?thesis by (rule conjI)
qed

lemma validate_file_size_boundary_100:
  "validate_file_size limit_config (100 * 1024 * 1024) = Inr (True, []) \<and>
   validate_file_size limit_config (100 * 1024 * 1024 + 1) =
     Inr (False, ''File size 100.00MB exceeds maximum allowed size of 100MB'')"
proof -
  have c: "max_file_size_mb limit_config = Some (int 100)"
    by (simp add: limit_config_def)
  have s: "(100::nat) * 1024 * 1024 + 1 < 2 ^ 53" by simp
  have "\<lfloor>(104857601 / 1048576 :: rat) * 100\<rfloor> = 10000"
    by (simp add: floor_eq_iff)
  then have f: "fmt_2f (of_nat (100 * 1024 * 1024 + 1) / (1024 * 1024)) = ''100.00''"
    by (simp add: fmt_2f_def Let_def str_nat_digit str_nat_step)
  have i: "str_int (int 100) = ''100''"
    by (simp add: str_int_def str_nat_digit str_nat_step)
  from validate_file_size_boundary [OF c s] show ?thesis
    unfolding f i by simp
qed

text \<open>
  From \<open>2^53\<close> bytes on the quotient is rounded: under a limit of \<open>2^33\<close> MB a length of
  \<open>2^53 + 1\<close> bytes, one byte over, passes.
\<close>

lemma nearest53_tie: "nearest53 9007199254740993 = 9007199254740992"
proof -
  have "bit_length 9007199254740993 = 54"
    by (simp add: bit_length_0 bit_length_pos)
  then show ?thesis by (simp add: nearest53_def Let_def)
qed

lemma validate_file_size_rounding:
  "validate_file_size (default_service_config\<lparr>max_file_size_mb := Some (2 ^ 33)\<rparr>)
     (2 ^ 33 * 1024 * 1024 + 1) = Inr (True, [])"
proof -
  have e: "(2::nat) ^ 33 * 1024 * 1024 + 1 = 9007199254740993" by simp
  have lt: "\<not> (2::nat) ^ 1044 \<le> 9007199254740992"
  proof -
    have "\<not> (2::nat) ^ 1044 \<le> 2 ^ 53" by (simp only: power_increasing_iff)
    then show ?thesis by simp
  qed
  have b: "bytes_to_mb 9007199254740993 = Inr (of_nat 9007199254740992 / (1024 * 1024))"
    unfolding bytes_to_mb_def nearest53_tie Let_def using lt by (simp only: if_False)
  show ?thesis
    unfolding e validate_file_size_def b
    by (simp add: default_service_config_def)
qed

text \<open>
  Without an entry for the limit the check raises, whatever the length, and no content
  passes the validation.
\<close>

lemma validate_file_size_no_limit:
  assumes "max_file_size_mb cfg = None"
  shows "\<exists>e. validate_file_size cfg n = Inl e"
  using assms by (simp add: validate_file_size_def split: sum.splits)

lemma validate_file_size_no_limit_KeyError:
  assumes "max_file_size_mb cfg = None" and "n < 2 ^ 53"
  shows "validate_file_size cfg n = Inl (KeyError ''max_file_size_mb'')"
  using assms by (simp add: validate_file_size_def bytes_to_mb_exact)

lemma validate_file_no_limit:
  assumes "max_file_size_mb cfg = None"
  shows "\<not> fst (validate_file env cfg C T name)"
proof -
  from validate_file_size_no_limit [OF assms] obtain e
    where "validate_file_size cfg (length C) = Inl e" ..
  then show ?thesis
    by (simp add: validate_file_def Let_def file_validation_error_def)
qed

subsection \<open>The MIME check\<close>

lemma validate_mime_type_mismatch:
  assumes "magic_from_buffer env C = Inr D" and "lower D \<noteq> lower T"
  shows "validate_mime_type env cfg C T =
           (False, ''MIME type mismatch: claimed '' @ T @ '', detected '' @ D)"
  using assms by (simp add: validate_mime_type_def)

lemma validate_file_mismatch_verdict:
  assumes "magic_from_buffer env C = Inr D" and "lower D \<noteq> lower T"
  shows "\<not> fst (validate_file env cfg C T name)"
  using validate_mime_type_mismatch [OF assms, of cfg]
  by (simp add: validate_file_def Let_def)

lemma validate_file_mismatch_reason:
  assumes "magic_from_buffer env C = Inr D" and "lower D \<noteq> lower T" and "C \<noteq> []"
  shows "fst (snd (validate_file env cfg C T name)) =
           ''MIME type mismatch: claimed '' @ T @ '', detected '' @ D"
  using validate_mime_type_mismatch [OF assms(1,2), of cfg] assms(3)
  by (simp add: validate_file_def Let_def)

lemma lower_pdf: "lower ''application/pdf'' = ''application/pdf''"
  by code_simp

lemma lower_PDF: "lower ''APPLICATION/PDF'' = ''application/pdf''"
  by code_simp

lemma lower_exe: "lower ''application/x-msdownload'' = ''application/x-msdownload''"
  by code_simp

lemma limit_config_simps:
  "allowed_mime_types limit_config = Some default_allowed_mime_types"
  "max_file_size_mb limit_config = Some 100"
  "virus_scan_enabled limit_config = Some True"
  "content_validation_rules limit_config =
     Some [(''max_pages'', 50), (''min_dpi'', 300), (''max_image_dimension'', 4096)]"
  by (simp_all add: limit_config_def default_service_config_def)

lemma pdf_env_simps:
  "magic_from_buffer pdf_env b = Inr ''application/pdf''"
  "clamd_instream pdf_env b = Inr (''OK'', None)"
  "sha256_hexdigest pdf_env b = ''9f64a747''"
  "elapsed_ms pdf_env = 5"
  by (simp_all add: pdf_env_def)

lemma exe_env_sniff: "magic_from_buffer exe_env b = Inr ''application/x-msdownload''"
  by (simp add: exe_env_def)

lemma exe_differs: "lower ''application/x-msdownload'' \<noteq> lower ''application/pdf''"
  by (simp add: lower_pdf lower_exe)

lemma pdf_allowed: "''application/pdf'' \<in> set (map lower default_allowed_mime_types)"
  by (simp add: default_allowed_mime_types_def lower_pdf)

lemma validate_mime_type_pdf_upper:
  "validate_mime_type pdf_env limit_config C ''APPLICATION/PDF'' = (True, [])"
  using pdf_allowed
  by (simp add: validate_mime_type_def pdf_env_simps limit_config_simps lower_pdf lower_PDF)

lemma validate_file_size_small: "validate_file_size limit_config (length [b]) = Inr (True, [])"
  by (simp add: validate_file_size_exact [where m = 100] limit_config_simps)

text \<open>
  \<^bold>\<open>C6\<close>, as stated (validation fails whenever the sniffed type differs from the claimed
  type), fails for a claimed type that differs from the sniffed one in letter case only:
  the comparison lower-cases both sides. Content sniffed as \<^verbatim>\<open>application/pdf\<close> and claimed
  as \<^verbatim>\<open>APPLICATION/PDF\<close> validates.
\<close>

theorem validate_file_case_counterexample:
  "magic_from_buffer pdf_env [1] = Inr ''application/pdf'' \<and>
   ''application/pdf'' \<noteq> ''APPLICATION/PDF'' \<and>
   fst (validate_file pdf_env limit_config [1] ''APPLICATION/PDF'' ''a.pdf'')"
  unfolding validate_file_def Let_def validate_mime_type_pdf_upper validate_file_size_small
  by (simp add: pdf_env_simps limit_config_simps scan_for_viruses_def)

text \<open>
  \<^bold>\<open>C6\<close>, amended: for all content \<open>C\<close> and every claimed type \<open>T\<close>, validation fails
  whenever the sniffed type of \<open>C\<close> differs from \<open>T\<close> by more than letter case, whatever
  the configured allow-list holds; for non-empty content the reason is the mismatch, so
  the comparison precedes the allow-list check.
\<close>

theorem validate_file_sniffed_mismatch:
  assumes "magic_from_buffer env C = Inr D" and "lower D \<noteq> lower T"
  shows "\<not> fst (validate_file env cfg C T name) \<and>
         (C \<noteq> [] \<longrightarrow>
            fst (snd (validate_file env cfg C T name)) =
              ''MIME type mismatch: claimed '' @ T @ '', detected '' @ D)"
  using validate_file_mismatch_verdict [OF assms] validate_file_mismatch_reason [OF assms]
  by simp

theorem validate_file_sniffed_mismatch_witness:
  "\<not> fst (validate_file exe_env limit_config [1] ''application/pdf'' ''a.pdf'') \<and>
   fst (snd (validate_file exe_env limit_config [1] ''application/pdf'' ''a.pdf'')) =
     ''MIME type mismatch: claimed application/pdf, detected application/x-msdownload''"
  using validate_file_sniffed_mismatch
    [where C = "[1]" and cfg = limit_config and name = "''a.pdf''", OF exe_env_sniff exe_differs]
  by simp

subsection \<open>The size check under the configuration of config.py\<close>

lemma validate_mime_type_pdf_allowed:
  assumes "allowed_mime_types cfg = Some default_allowed_mime_types"
  shows "validate_mime_type pdf_env cfg C ''application/pdf'' = (True, [])"
  using pdf_allowed assms
  by (simp add: validate_mime_type_def pdf_env_simps lower_pdf)

lemma sanitize_report: "sanitize_filename ''report.pdf'' = ''report.pdf''"
  by (simp add: sanitize_filename_def basename_def forbidden_chars_def str_remove.simps
      startswith_def)

text \<open>
  \<^bold>\<open>C8\<close> (a file of exactly the configured maximum passes the size check, one byte more
  fails with a size-specific reason). The code does not have the property under any
  configuration that \<^verbatim>\<open>config.py\<close> builds: the maximum (100 MB by default) is an entry of
  \<^verbatim>\<open>storage_config\<close>, and \<^verbatim>\<open>validate_file_size\<close> asks \<^verbatim>\<open>service_config\<close> for it. At exactly
  100 MB and at one byte more the check raises \<^verbatim>\<open>KeyError\<close>, and \<^verbatim>\<open>validate_file\<close> reports a
  PDF of three bytes as a validation error that names the key, not the size.
\<close>

theorem validate_file_size_config_key:
  "validate_file_size default_service_config (100 * 1024 * 1024) =
     Inl (KeyError ''max_file_size_mb'') \<and>
   validate_file_size default_service_config (100 * 1024 * 1024 + 1) =
     Inl (KeyError ''max_file_size_mb'') \<and>
   \<not> fst (validate_file pdf_env default_service_config [1, 2, 3] ''application/pdf''
           ''report.pdf'') \<and>
   fst (snd (validate_file pdf_env default_service_config [1, 2, 3] ''application/pdf''
           ''report.pdf'')) =
     ''File validation error: '' @ [CHR 0x27] @ ''max_file_size_mb'' @ [CHR 0x27]"
proof -
  have none: "max_file_size_mb default_service_config = None"
    by (simp add: default_service_config_def)
  have allowed: "allowed_mime_types default_service_config = Some default_allowed_mime_types"
    by (simp add: default_service_config_def)
  have k: "validate_file_size default_service_config (length [1, 2, 3 :: 8 word]) =
      Inl (KeyError ''max_file_size_mb'')"
    by (rule validate_file_size_no_limit_KeyError [OF none]) simp
  have v: "validate_file pdf_env default_service_config [1, 2, 3] ''application/pdf''
      ''report.pdf'' =
        file_validation_error pdf_env (KeyError ''max_file_size_mb'')
          \<lparr> md_original_filename = ''report.pdf'', md_sanitized_filename = ''report.pdf'',
            md_file_size_bytes = 3, md_mime_type = ''application/pdf'',
            md_file_hash = [], md_validation_time_ms = 0 \<rparr>"
    unfolding validate_file_def Let_def validate_mime_type_pdf_allowed [OF allowed] k
      sanitize_report
    by (simp add: numeral_3_eq_3)
  show ?thesis
    unfolding v
    by (simp add: validate_file_size_no_limit_KeyError [OF none] file_validation_error_def)
qed

section \<open>Properties of the retry decorator\<close>

lemma retrying_Inr_now: "fn w = (Inr v, w') \<Longrightarrow> retrying n wt a fn w = (Inr v, w')"
  by (subst retrying.simps) simp

lemma retrying_Inl_last:
  "fn w = (Inl e, w') \<Longrightarrow> n \<le> a \<Longrightarrow> retrying n wt a fn w = (Inl (RetryError e), w')"
  by (subst retrying.simps) simp

lemma retrying_Inl_again:
  "fn w = (Inl e, w') \<Longrightarrow> \<not> n \<le> a \<Longrightarrow>
   retrying n wt a fn w = retrying n wt (Suc a) fn (sleep (wt a) w')"
  by (subst retrying.simps) simp

text \<open>A call that fails the same way in every world is made three times, 4s apart.\<close>

lemma retry_always_failing:
  assumes "\<And>w. fn w = (Inl e, g w)"
  shows "retry fn w = (Inl (RetryError e), g (sleep 4 (g (sleep 4 (g w)))))"
proof -
  have "retry fn w = retrying 3 (wait_exponential 1 4 10) (Suc 1) fn (sleep 4 (g w))"
    unfolding retry_def
    by (subst retrying_Inl_again [OF assms]) (simp_all add: wait_exponential_def)
  also have "\<dots> =
      retrying 3 (wait_exponential 1 4 10) (Suc (Suc 1)) fn (sleep 4 (g (sleep 4 (g w))))"
    by (subst retrying_Inl_again [OF assms]) (simp_all add: wait_exponential_def)
  also have "\<dots> = (Inl (RetryError e), g (sleep 4 (g (sleep 4 (g w)))))"
    by (rule retrying_Inl_last [OF assms]) simp
  finally show ?thesis .
qed

text \<open>
  What a retried call returns came from its last attempt, and every attempt before it
  failed: an invariant of the failing attempts and of the waits holds of the world the
  last attempt started in.
\<close>

lemma retrying_result:
  assumes "retrying n wt a fn w = (r, w')"
    and "I w"
    and "\<And>w0 e w1. I w0 \<Longrightarrow> fn w0 = (Inl e, w1) \<Longrightarrow> I w1"
    and "\<And>w0 s. I w0 \<Longrightarrow> I (sleep s w0)"
  shows "\<exists>w0. I w0 \<and>
            (case r of Inr v \<Rightarrow> fn w0 = (Inr v, w')
                     | Inl x \<Rightarrow> \<exists>e. x = RetryError e \<and> fn w0 = (Inl e, w'))"
  using assms
proof (induction n wt a fn w rule: retrying.induct)
  case (1 n wt a fn w)
  note run = "1.prems"(1) and inv = "1.prems"(2) and step = "1.prems"(3) and slp = "1.prems"(4)
  obtain r0 w1 where f: "fn w = (r0, w1)" by (cases "fn w")
  show ?case
  proof (cases r0)
    case (Inr v)
    with f run have "r = Inr v" "w' = w1"
      by (simp_all add: retrying_Inr_now)
    with f Inr inv show ?thesis by auto
  next
    case (Inl e)
    from step [OF inv f [unfolded Inl]] have i1: "I w1" .
    show ?thesis
    proof (cases "n \<le> a")
      case True
      with f Inl run have "r = Inl (RetryError e)" "w' = w1"
        by (simp_all add: retrying_Inl_last)
      with f Inl inv show ?thesis by auto
    next
      case False
      from f Inl False run
      have "retrying n wt (Suc a) fn (sleep (wt a) w1) = (r, w')"
        by (simp add: retrying_Inl_again)
      moreover have "I (sleep (wt a) w1)" by (rule slp [OF i1])
      ultimately show ?thesis
        using "1.IH" [OF f [symmetric] _ False, of e] Inl step slp by blast
    qed
  qed
qed

lemma retry_Inr:
  assumes "retry fn w = (Inr v, w')"
  shows "\<exists>w0. fn w0 = (Inr v, w')"
  using retrying_result [where I = "\<lambda>w. True" and fn = fn, OF assms [unfolded retry_def]]
  by simp

text \<open>The same for a call that fails the same way while an invariant holds.\<close>

lemma retry_failing_while:
  assumes fails: "\<And>w0. I w0 \<Longrightarrow> fn w0 = (Inl e, g w0)"
    and keep: "\<And>w0. I w0 \<Longrightarrow> I (g w0)"
    and slp: "\<And>w0 s. I w0 \<Longrightarrow> I (sleep s w0)"
    and "I w"
  shows "retry fn w = (Inl (RetryError e), g (sleep 4 (g (sleep 4 (g w)))))"
proof -
  have i1: "I (sleep 4 (g w))" using assms by blast
  then have i2: "I (sleep 4 (g (sleep 4 (g w))))" using assms by blast
  have f0: "fn w = (Inl e, g w)" using fails \<open>I w\<close> by blast
  have f1: "fn (sleep 4 (g w)) = (Inl e, g (sleep 4 (g w)))" using fails i1 by blast
  have f2: "fn (sleep 4 (g (sleep 4 (g w)))) = (Inl e, g (sleep 4 (g (sleep 4 (g w)))))"
    using fails i2 by blast
  have "retry fn w = retrying 3 (wait_exponential 1 4 10) (Suc 1) fn (sleep 4 (g w))"
    unfolding retry_def
    by (subst retrying_Inl_again [where fn = fn, OF f0]) (simp_all add: wait_exponential_def)
  also have "\<dots> =
      retrying 3 (wait_exponential 1 4 10) (Suc (Suc 1)) fn (sleep 4 (g (sleep 4 (g w))))"
    by (subst retrying_Inl_again [where fn = fn, OF f1]) (simp_all add: wait_exponential_def)
  also have "\<dots> = (Inl (RetryError e), g (sleep 4 (g (sleep 4 (g w)))))"
    by (rule retrying_Inl_last [where fn = fn, OF f2]) simp
  finally show ?thesis .
qed

text \<open>An invariant of every attempt and of the waits holds of the world a retried call leaves.\<close>

lemma retrying_invariant:
  assumes "I w"
    and "\<And>w0. I w0 \<Longrightarrow> I (snd (fn w0))"
    and "\<And>w0 s. I w0 \<Longrightarrow> I (sleep s w0)"
  shows "I (snd (retrying n wt a fn w))"
  using assms
proof (induction n wt a fn w rule: retrying.induct)
  case (1 n wt a fn w)
  note inv = "1.prems"(1) and step = "1.prems"(2) and slp = "1.prems"(3)
  obtain r0 w1 where f: "fn w = (r0, w1)" by (cases "fn w")
  from step [OF inv] f have i1: "I w1" by simp
  show ?case
  proof (cases r0)
    case (Inr v)
    with f have "retrying n wt a fn w = (Inr v, w1)"
      by (simp add: retrying_Inr_now)
    with i1 show ?thesis by simp
  next
    case (Inl e)
    show ?thesis
    proof (cases "n \<le> a")
      case True
      with f Inl have "retrying n wt a fn w = (Inl (RetryError e), w1)"
        by (simp add: retrying_Inl_last)
      with i1 show ?thesis by simp
    next
      case False
      from f Inl False
      have "retrying n wt a fn w = retrying n wt (Suc a) fn (sleep (wt a) w1)"
        by (simp add: retrying_Inl_again)
      moreover have "I (sleep (wt a) w1)" by (rule slp [OF i1])
      ultimately show ?thesis
        using "1.IH" [OF f [symmetric] _ False, of e] Inl step slp by simp
    qed
  qed
qed

lemma retry_invariant:
  assumes "I w"
    and "\<And>w0. I w0 \<Longrightarrow> I (snd (fn w0))"
    and "\<And>w0 s. I w0 \<Longrightarrow> I (sleep s w0)"
  shows "I (snd (retry fn w))"
  unfolding retry_def using assms by (rule retrying_invariant)

text \<open>
  The decorator of the storage service, written out: at most three attempts, each the
  whole of the decorated function, 4s apart.
\<close>

lemma retry_attempts:
  "retry fn w =
     (case fn w of
        (Inr v, w1) \<Rightarrow> (Inr v, w1)
      | (Inl e1, w1) \<Rightarrow>
          (case fn (sleep 4 w1) of
             (Inr v, w2) \<Rightarrow> (Inr v, w2)
           | (Inl e2, w2) \<Rightarrow>
               (case fn (sleep 4 w2) of
                  (Inr v, w3) \<Rightarrow> (Inr v, w3)
                | (Inl e3, w3) \<Rightarrow> (Inl (RetryError e3), w3))))"
proof -
  obtain r1 w1 where f1: "fn w = (r1, w1)" by (cases "fn w")
  obtain r2 w2 where f2: "fn (sleep 4 w1) = (r2, w2)" by (cases "fn (sleep 4 w1)")
  obtain r3 w3 where f3: "fn (sleep 4 w2) = (r3, w3)" by (cases "fn (sleep 4 w2)")
  show ?thesis
  proof (cases r1)
    case (Inr v)
    with f1 show ?thesis by (simp add: retry_def retrying_Inr_now [where fn = fn])
  next
    case e1: (Inl e1)
    with f1 have s1: "retry fn w = retrying 3 (wait_exponential 1 4 10) (Suc 1) fn (sleep 4 w1)"
      unfolding retry_def by (subst retrying_Inl_again [where fn = fn and e = e1 and w' = w1]) (simp_all add: wait_exponential_def)
    show ?thesis
    proof (cases r2)
      case (Inr v)
      with f1 e1 f2 s1 show ?thesis by (simp add: retrying_Inr_now [where fn = fn])
    next
      case e2: (Inl e2)
      with f2 have s2: "retrying 3 (wait_exponential 1 4 10) (Suc 1) fn (sleep 4 w1) =
          retrying 3 (wait_exponential 1 4 10) (Suc (Suc 1)) fn (sleep 4 w2)"
        by (subst retrying_Inl_again [where fn = fn and e = e2 and w' = w2]) (simp_all add: wait_exponential_def)
      show ?thesis
      proof (cases r3)
        case (Inr v)
        with f1 e1 f2 e2 f3 s1 s2 show ?thesis by (simp add: retrying_Inr_now [where fn = fn])
      next
        case e3: (Inl e3)
        with f3 have "retrying 3 (wait_exponential 1 4 10) (Suc (Suc 1)) fn (sleep 4 w2) =
            (Inl (RetryError e3), w3)"
          by (intro retrying_Inl_last [where fn = fn]) simp_all
        with f1 e1 f2 e2 f3 e3 s1 s2 show ?thesis by simp
      qed
    qed
  qed
qed

section \<open>Properties of the storage service\<close>

subsection \<open>Uploads that fail validation\<close>

lemma upload_file_body_invalid:
  assumes "\<not> fst (validate_file env cfg C T name)"
  shows "upload_file_body env cfg C name T app w =
           (Inl (ValueError (''File validation failed: '' @
                   fst (snd (validate_file env cfg C T name)))),
            record_call ValidateFile w)"
  using assms by (simp add: upload_file_body_def Let_def)

lemma upload_file_invalid:
  assumes "\<not> fst (validate_file env cfg C T name)"
  shows "upload_file env cfg C name T app w =
           (Inl (RetryError (ValueError (''File validation failed: '' @
                   fst (snd (validate_file env cfg C T name))))),
            record_call ValidateFile (sleep 4 (record_call ValidateFile
              (sleep 4 (record_call ValidateFile w)))))"
  unfolding upload_file_def
  by (rule retry_always_failing) (rule upload_file_body_invalid [OF assms])

lemma three_validations:
  "calls (record_call ValidateFile (sleep 4 (record_call ValidateFile
              (sleep 4 (record_call ValidateFile w))))) =
   calls w @ [ValidateFile, Sleep 4, ValidateFile, Sleep 4, ValidateFile]"
  "s3_objects (record_call ValidateFile (sleep 4 (record_call ValidateFile
              (sleep 4 (record_call ValidateFile w))))) = s3_objects w"
  "mongo_docs (record_call ValidateFile (sleep 4 (record_call ValidateFile
              (sleep 4 (record_call ValidateFile w))))) = mongo_docs w"
  by (simp_all add: record_call_def sleep_def)

lemma empty_content_invalid:
  "\<not> fst (validate_file env cfg [] T name)"
  "fst (snd (validate_file env cfg [] T name)) = ''Empty file content''"
  by (simp_all add: validate_file_def Let_def)

lemma exe_upload_invalid:
  "\<not> fst (validate_file exe_env limit_config [1] ''application/pdf'' ''a.pdf'')"
  by (rule validate_file_mismatch_verdict [OF exe_env_sniff exe_differs])

lemma exe_upload_reason:
  "fst (snd (validate_file exe_env limit_config [1] ''application/pdf'' ''a.pdf'')) =
     ''MIME type mismatch: claimed application/pdf, detected application/x-msdownload''"
  using validate_file_mismatch_reason
    [where C = "[1]" and cfg = limit_config and name = "''a.pdf''", OF exe_env_sniff exe_differs]
  by simp

text \<open>
  \<^bold>\<open>C5\<close>: for every upload whose content fails validation (a MIME mismatch, for one),
  \<^verbatim>\<open>upload_file\<close> fails and has no side effect on the stores: the object store and the
  metadata store are as before, no write was issued to either, and each attempt stops
  right after the validation.
\<close>

theorem upload_file_invalid_no_writes:
  assumes "\<not> fst (validate_file env cfg C T name)"
  shows "(\<exists>e. fst (upload_file env cfg C name T app w) = Inl e) \<and>
         s3_objects (snd (upload_file env cfg C name T app w)) = s3_objects w \<and>
         mongo_docs (snd (upload_file env cfg C name T app w)) = mongo_docs w \<and>
         filter is_write (calls (snd (upload_file env cfg C name T app w))) =
           filter is_write (calls w) \<and>
         snd (upload_file_body env cfg C name T app w) = record_call ValidateFile w"
  by (simp add: upload_file_invalid [OF assms] upload_file_body_invalid [OF assms]
      three_validations)

theorem upload_file_invalid_no_writes_witness:
  "(\<exists>e. fst (upload_file exe_env limit_config [1] ''a.pdf'' ''application/pdf'' 7 empty_world) = Inl e) \<and>
   s3_objects (snd (upload_file exe_env limit_config [1] ''a.pdf'' ''application/pdf'' 7 empty_world)) =
     Map.empty \<and>
   mongo_docs (snd (upload_file exe_env limit_config [1] ''a.pdf'' ''application/pdf'' 7 empty_world)) = [] \<and>
   filter is_write
     (calls (snd (upload_file exe_env limit_config [1] ''a.pdf'' ''application/pdf'' 7 empty_world))) = []"
  using upload_file_invalid_no_writes [OF exe_upload_invalid, where app = 7 and w = empty_world]
  by (simp add: empty_world_def)

subsection \<open>Presigned URLs\<close>

lemma valid_path_example: "\<not> invalid_storage_path ''documents/a/b/c.pdf''"
  by (simp add: invalid_storage_path_def startswith_def)

lemma traversal_path_example: "invalid_storage_path ''documents/../secret''"
  by (simp add: invalid_storage_path_def startswith_def)

lemma foreign_path_example: "invalid_storage_path ''uploads/c.pdf''"
  by (simp add: invalid_storage_path_def startswith_def)

text \<open>
  \<^bold>\<open>C4\<close>, as stated (the expiry is clamped into the range and a URL produced whatever was
  requested), fails: an expiry outside the range is refused. A request for 100 seconds
  on a valid path raises \<^verbatim>\<open>ValueError\<close>.
\<close>

theorem generate_presigned_url_short_expiry_counterexample:
  "fst (generate_presigned_url ''documents/a/b/c.pdf'' 100 empty_world) =
     Inl (ValueError ''Invalid expiry duration'')"
  by (simp add: generate_presigned_url_def valid_path_example)

text \<open>
  \<^bold>\<open>C4\<close>, amended: \<^verbatim>\<open>generate_presigned_url\<close> rejects a path that fails the
  \<^verbatim>\<open>documents/\<close> prefix or the traversal check; on a valid path it rejects every expiry
  outside 300 to 7200 seconds (5 minutes to 2 hours) instead of clamping it; and for an
  expiry inside the range it produces, when the signing call goes through, a URL for the
  path that expires after exactly the requested seconds. A rejection touches nothing.
\<close>

theorem generate_presigned_url_checks:
  "(invalid_storage_path p \<longrightarrow>
      generate_presigned_url p e w = (Inl (ValueError ''Invalid storage path''), w)) \<and>
   (\<not> invalid_storage_path p \<and> (e < 300 \<or> 7200 < e) \<longrightarrow>
      generate_presigned_url p e w = (Inl (ValueError ''Invalid expiry duration''), w)) \<and>
   (\<not> invalid_storage_path p \<and> 300 \<le> e \<and> e \<le> 7200 \<and> fst (next_fault w) = None \<longrightarrow>
      fst (generate_presigned_url p e w) =
        Inr \<lparr> url_key = p, url_method = ''GET'', url_expires_in = e \<rparr>)"
  by (auto simp add: generate_presigned_url_def split: prod.splits option.splits)

theorem generate_presigned_url_checks_witness:
  "generate_presigned_url ''documents/../secret'' 3600 empty_world =
     (Inl (ValueError ''Invalid storage path''), empty_world) \<and>
   generate_presigned_url ''uploads/c.pdf'' 3600 empty_world =
     (Inl (ValueError ''Invalid storage path''), empty_world) \<and>
   generate_presigned_url ''documents/a/b/c.pdf'' 86400 empty_world =
     (Inl (ValueError ''Invalid expiry duration''), empty_world) \<and>
   fst (generate_presigned_url ''documents/a/b/c.pdf'' 3600 empty_world) =
     Inr \<lparr> url_key = ''documents/a/b/c.pdf'', url_method = ''GET'', url_expires_in = 3600 \<rparr>"
proof -
  have nf: "fst (next_fault empty_world) = None"
    by (simp add: next_fault_def empty_world_def)
  from generate_presigned_url_checks [of "''documents/../secret''" 3600 empty_world]
       generate_presigned_url_checks [of "''uploads/c.pdf''" 3600 empty_world]
       generate_presigned_url_checks [of "''documents/a/b/c.pdf''" 86400 empty_world]
       generate_presigned_url_checks [of "''documents/a/b/c.pdf''" 3600 empty_world]
  show ?thesis
    using nf valid_path_example traversal_path_example foreign_path_example by simp
qed

subsection \<open>Uploads that pass validation\<close>

lemma validate_file_sanitized:
  "fst (validate_file env cfg C T name) \<Longrightarrow>
   md_sanitized_filename (snd (snd (validate_file env cfg C T name))) = sanitize_filename name"
  by (auto simp add: validate_file_def Let_def file_validation_error_def
      split: sum.splits if_splits option.splits)

lemma Document_validate_Inr: "Document_validate d = Inr ok \<Longrightarrow> ok = True"
  by (auto simp add: Document_validate_def document_invalid_def split: if_splits)

lemma Document_validate_accepts:
  assumes "Document_validate d = Inr True"
  shows "file_name d \<noteq> []" and "\<not> str_in ''..'' (file_name d)" and "\<not> str_in ''/'' (file_name d)"
    and "mime_type d \<in> set ALLOWED_MIME_TYPES"
    and "0 \<le> file_size d" and "file_size d \<le> 50 * 1024 * 1024"
    and "startswith (storage_path d) ''documents/''" and "\<not> str_in ''..'' (storage_path d)"
    and "dt_tzinfo (uploaded_at d) = TzUtc"
  using assms
  by (auto simp add: Document_validate_def document_invalid_def MAX_FILE_SIZE_MB_def
      split: if_splits)

text \<open>
  An attempt starts with the validation, then makes at most the two write calls, each
  once, and never waits. Since \<^verbatim>\<open>save()\<close> raises, no attempt returns a record and none changes the
  metadata store.
\<close>

lemma upload_file_body_calls:
  "\<exists>rest. calls (snd (upload_file_body env cfg C name T app w)) = calls w @ ValidateFile # rest \<and>
          (rest = [] \<or> (\<exists>k. rest = [PutObject k]) \<or>
           (\<exists>k d. rest = [PutObject k, SaveDocument d]))"
  by (auto simp add: upload_file_body_def Let_def uuid4_def put_object_def save_def next_fault_def
      record_call_def
      split: prod.splits sum.splits option.splits list.splits)

lemma upload_file_body_fails: "fst (upload_file_body env cfg C name T app w) \<noteq> Inr d"
  by (auto simp add: upload_file_body_def Let_def save_def
      split: prod.splits sum.splits)

lemma upload_file_fails: "\<exists>e. fst (upload_file env cfg C name T app w) = Inl e"
proof (cases "fst (upload_file env cfg C name T app w)")
  case (Inl e)
  then show ?thesis by blast
next
  case (Inr d)
  then have "retry (upload_file_body env cfg C name T app) w =
      (Inr d, snd (upload_file env cfg C name T app w))"
    by (simp add: upload_file_def prod_eq_iff)
  from retry_Inr [OF this] obtain w0
    where "upload_file_body env cfg C name T app w0 =
      (Inr d, snd (upload_file env cfg C name T app w))" ..
  with upload_file_body_fails [of env cfg C name T app w0 d] show ?thesis by simp
qed




text \<open>The record an attempt calls \<^verbatim>\<open>save()\<close> on is the one it built and validated.\<close>

lemma upload_file_body_saves:
  assumes "SaveDocument d \<in> set (calls (snd (upload_file_body env cfg C name T app w)))"
    and "SaveDocument d \<notin> set (calls w)"
  shows "Document_validate d = Inr True \<and>
         application_id d = app \<and>
         file_name d = sanitize_filename name \<and>
         mime_type d = T \<and>
         file_size d = int (length C) \<and>
         storage_path d = ''documents/'' @ str_uuid app @ ''/'' @ str_uuid (doc_id d) @ ''/'' @
                          sanitize_filename name \<and>
         status d = UPLOADED \<and> verification_status d = UNVERIFIED"
proof -
  from assms have valid: "fst (validate_file env cfg C T name)"
    by (auto simp add: upload_file_body_def Let_def record_call_def split: if_splits)
  from assms valid show ?thesis
    by (auto simp add: upload_file_body_def Let_def validate_file_sanitized Document_init_def
        uuid4_def put_object_def save_def next_fault_def record_call_def
        dest: Document_validate_Inr
        split: prod.splits sum.splits option.splits list.splits)
qed

lemma upload_file_saves:
  assumes "SaveDocument d \<in> set (calls (snd (upload_file env cfg C name T app w)))"
    and "SaveDocument d \<notin> set (calls w)"
  shows "Document_validate d = Inr True \<and>
         application_id d = app \<and>
         file_name d = sanitize_filename name \<and>
         mime_type d = T \<and>
         file_size d = int (length C) \<and>
         storage_path d = ''documents/'' @ str_uuid app @ ''/'' @ str_uuid (doc_id d) @ ''/'' @
                          sanitize_filename name \<and>
         status d = UPLOADED \<and> verification_status d = UNVERIFIED"
proof -
  let ?P = "Document_validate d = Inr True \<and>
         application_id d = app \<and>
         file_name d = sanitize_filename name \<and>
         mime_type d = T \<and>
         file_size d = int (length C) \<and>
         storage_path d = ''documents/'' @ str_uuid app @ ''/'' @ str_uuid (doc_id d) @ ''/'' @
                          sanitize_filename name \<and>
         status d = UPLOADED \<and> verification_status d = UNVERIFIED"
  let ?I = "\<lambda>w0 :: world. SaveDocument d \<in> set (calls w0) \<longrightarrow> ?P"
  have "?I (snd (retry (upload_file_body env cfg C name T app) w))"
  proof (rule retry_invariant [where I = ?I])
    from assms(2) show "?I w" by simp
  next
    fix w0 :: world
    assume i: "?I w0"
    show "?I (snd (upload_file_body env cfg C name T app w0))"
    proof
      assume m: "SaveDocument d \<in> set (calls (snd (upload_file_body env cfg C name T app w0)))"
      show ?P
      proof (cases "SaveDocument d \<in> set (calls w0)")
        case True
        with i show ?thesis by blast
      next
        case False
        from upload_file_body_saves [OF m False] show ?thesis .
      qed
    qed
  next
    fix w0 :: world and s
    assume "?I w0"
    then show "?I (sleep s w0)" by (simp add: sleep_def record_call_def)
  qed
  with assms(1) show ?thesis by (simp add: upload_file_def)
qed

lemma validate_mime_type_pdf:
  "validate_mime_type pdf_env limit_config C ''application/pdf'' = (True, [])"
  using pdf_allowed
  by (simp add: validate_mime_type_def pdf_env_simps limit_config_simps lower_pdf)

lemma validate_file_size_within:
  assumes "n \<le> 100 * 1024 * 1024"
  shows "validate_file_size limit_config n = Inr (True, [])"
proof -
  from assms have "n < 2 ^ 53" by simp
  moreover from assms have "\<not> (of_nat n / (1024 * 1024) > (of_int 100 :: rat))"
    by (simp add: field_simps)
  ultimately show ?thesis
    by (simp add: validate_file_size_exact [where m = 100] limit_config_simps)
qed

lemma validate_report:
  assumes "C \<noteq> []" and "length C \<le> 100 * 1024 * 1024"
  shows "validate_file pdf_env limit_config C ''application/pdf'' ''report.pdf'' =
     (True, [],
      \<lparr> md_original_filename = ''report.pdf'', md_sanitized_filename = ''report.pdf'',
        md_file_size_bytes = length C, md_mime_type = ''application/pdf'',
        md_file_hash = ''9f64a747'', md_validation_time_ms = 5 \<rparr>)"
  unfolding validate_file_def Let_def validate_mime_type_pdf
    validate_file_size_within [OF assms(2)] sanitize_report
  using assms(1)
  by (simp add: pdf_env_simps limit_config_simps scan_for_viruses_def generate_file_hash_def)

lemma str_uuid_0: "str_uuid 0 = ''00000000-0000-0000-0000-000000000000''"
  by code_simp

lemma str_uuid_7: "str_uuid 7 = ''00000000-0000-0000-0000-000000000007''"
  by code_simp

lemma report_document_valid: "Document_validate report_document = Inr True"
  by (simp add: Document_validate_def report_document_def report_path_def ALLOWED_MIME_TYPES_def
      MAX_FILE_SIZE_MB_def startswith_def)

lemma str_uuid_1: "str_uuid 1 = ''00000000-0000-0000-0000-000000000001''"
  by code_simp

lemma report_validated:
  "validate_file pdf_env limit_config [1, 2, 3] ''application/pdf'' ''report.pdf'' =
     (True, [],
      \<lparr> md_original_filename = ''report.pdf'', md_sanitized_filename = ''report.pdf'',
        md_file_size_bytes = 3, md_mime_type = ''application/pdf'',
        md_file_hash = ''9f64a747'', md_validation_time_ms = 5 \<rparr>)"
  using validate_report [of "[1, 2, 3]"] by simp

text \<open>
  The first attempt of the upload of \<^verbatim>\<open>report.pdf\<close>: it puts the object, builds the record
  and fails in \<^verbatim>\<open>save()\<close>; and with a failing object store, it fails in the put.
\<close>

lemma upload_report_attempt:
  "fst (upload_file_body pdf_env limit_config [1, 2, 3] ''report.pdf'' ''application/pdf'' 7
     empty_world) = Inl save_type_error"
  "calls (snd (upload_file_body pdf_env limit_config [1, 2, 3] ''report.pdf'' ''application/pdf'' 7
     empty_world)) = [ValidateFile, PutObject report_path, SaveDocument report_document]"
  "s3_objects (snd (upload_file_body pdf_env limit_config [1, 2, 3] ''report.pdf''
     ''application/pdf'' 7 empty_world)) report_path = Some report_object"
  unfolding upload_file_body_def report_validated Let_def
  by (simp_all add: uuid4_def record_call_def empty_world_def put_object_def next_fault_def
      now_utc_def save_def str_uuid_0 str_uuid_7 Document_init_def Document_validate_def
      report_document_def report_path_def report_object_def encryption_algorithm_def
      ALLOWED_MIME_TYPES_def MAX_FILE_SIZE_MB_def startswith_def)

lemma upload_faulty_attempt:
  "fst (upload_file_body pdf_env limit_config [1, 2, 3] ''report.pdf'' ''application/pdf'' 7
     faulty_world) = Inl (ClientError ''SlowDown'')"
  "calls (snd (upload_file_body pdf_env limit_config [1, 2, 3] ''report.pdf'' ''application/pdf'' 7
     faulty_world)) = [ValidateFile, PutObject report_path]"
  unfolding upload_file_body_def report_validated Let_def
  by (simp_all add: uuid4_def record_call_def empty_world_def faulty_world_def put_object_def
      next_fault_def str_uuid_0 str_uuid_7 report_path_def)

subsection \<open>What the retry repeats\<close>

lemma upload_file_attempts:
  "snd (upload_file env cfg C name T app w) =
     (case fst (upload_file_body env cfg C name T app w) of
        Inr d \<Rightarrow> snd (upload_file_body env cfg C name T app w)
      | Inl e1 \<Rightarrow>
          (case fst (upload_file_body env cfg C name T app
                       (sleep 4 (snd (upload_file_body env cfg C name T app w)))) of
             Inr d \<Rightarrow>
               snd (upload_file_body env cfg C name T app
                      (sleep 4 (snd (upload_file_body env cfg C name T app w))))
           | Inl e2 \<Rightarrow>
               snd (upload_file_body env cfg C name T app
                      (sleep 4 (snd (upload_file_body env cfg C name T app
                         (sleep 4 (snd (upload_file_body env cfg C name T app w)))))))))"
  unfolding upload_file_def
  by (subst retry_attempts) (auto split: prod.splits sum.splits)

lemma upload_file_body_calls_mono:
  "set (calls w) \<subseteq> set (calls (snd (upload_file_body env cfg C name T app w)))"
  using upload_file_body_calls [of env cfg C name T app w] by auto

lemma upload_file_keeps_first_attempt:
  "set (calls (snd (upload_file_body env cfg C name T app w))) \<subseteq>
   set (calls (snd (upload_file env cfg C name T app w)))"
proof -
  let ?B = "upload_file_body env cfg C name T app"
  have s: "set (calls w0) \<subseteq> set (calls (sleep 4 w0))" for w0
    by (auto simp add: sleep_def record_call_def)
  have 1: "set (calls (snd (?B w))) \<subseteq> set (calls (snd (?B (sleep 4 (snd (?B w))))))"
    using s [of "snd (?B w)"] upload_file_body_calls_mono [of "sleep 4 (snd (?B w))" env cfg C name T app]
    by blast
  have 2: "set (calls (snd (?B (sleep 4 (snd (?B w)))))) \<subseteq>
      set (calls (snd (?B (sleep 4 (snd (?B (sleep 4 (snd (?B w)))))))))"
    using s [of "snd (?B (sleep 4 (snd (?B w))))"]
      upload_file_body_calls_mono [of "sleep 4 (snd (?B (sleep 4 (snd (?B w)))))" env cfg C name T app]
    by blast
  from 1 2 show ?thesis
    unfolding upload_file_attempts by (auto split: sum.splits)
qed

text \<open>
  \<^bold>\<open>C2\<close>, as stated (an upload that fails validation fails once, without a retry), fails:
  the decorator is on the whole of \<^verbatim>\<open>upload_file\<close>, so the validation is inside what is
  retried. An upload of empty content is validated three times, 4s apart.
\<close>

theorem upload_file_empty_content_counterexample:
  "\<not> fst (validate_file pdf_env limit_config [] ''application/pdf'' ''a.pdf'') \<and>
   calls (snd (upload_file pdf_env limit_config [] ''a.pdf'' ''application/pdf'' 7 empty_world)) =
     [ValidateFile, Sleep 4, ValidateFile, Sleep 4, ValidateFile]"
  by (simp add: upload_file_invalid empty_content_invalid three_validations empty_world_def)

text \<open>
  \<^bold>\<open>C2\<close>, amended: the bounded retry (at most 3 attempts, a wait of 4s before the second
  and before the third, the exponential wait being capped at 10s) wraps the whole of
  \<^verbatim>\<open>upload_file\<close>. Every attempt, the first and each repetition, is the whole body: it starts
  with the validation, then makes at most one object-store write and at most one
  metadata write, and never waits or repeats a write on its own. So whatever made an
  attempt fail, the validation, the object-store write or the metadata write, the next
  attempt validates again; and an upload whose validation fails is validated three times,
  4s apart, before the call fails.
\<close>

theorem upload_file_retries_whole_body:
  "(\<exists>rest. calls (snd (upload_file_body env cfg C name T app w)) = calls w @ ValidateFile # rest \<and>
           (rest = [] \<or> (\<exists>k. rest = [PutObject k]) \<or>
            (\<exists>k d. rest = [PutObject k, SaveDocument d]))) \<and>
   snd (upload_file env cfg C name T app w) =
     (case fst (upload_file_body env cfg C name T app w) of
        Inr d \<Rightarrow> snd (upload_file_body env cfg C name T app w)
      | Inl e1 \<Rightarrow>
          (case fst (upload_file_body env cfg C name T app
                       (sleep 4 (snd (upload_file_body env cfg C name T app w)))) of
             Inr d \<Rightarrow>
               snd (upload_file_body env cfg C name T app
                      (sleep 4 (snd (upload_file_body env cfg C name T app w))))
           | Inl e2 \<Rightarrow>
               snd (upload_file_body env cfg C name T app
                      (sleep 4 (snd (upload_file_body env cfg C name T app
                         (sleep 4 (snd (upload_file_body env cfg C name T app w))))))))) \<and>
   (\<not> fst (validate_file env cfg C T name) \<longrightarrow>
      (\<exists>e. fst (upload_file env cfg C name T app w) = Inl e) \<and>
      calls (snd (upload_file env cfg C name T app w)) =
        calls w @ [ValidateFile, Sleep 4, ValidateFile, Sleep 4, ValidateFile])"
proof (intro conjI impI)
  show "\<exists>rest. calls (snd (upload_file_body env cfg C name T app w)) = calls w @ ValidateFile # rest \<and>
           (rest = [] \<or> (\<exists>k. rest = [PutObject k]) \<or>
            (\<exists>k d. rest = [PutObject k, SaveDocument d]))"
    by (rule upload_file_body_calls)
next
  show "snd (upload_file env cfg C name T app w) =
     (case fst (upload_file_body env cfg C name T app w) of
        Inr d \<Rightarrow> snd (upload_file_body env cfg C name T app w)
      | Inl e1 \<Rightarrow>
          (case fst (upload_file_body env cfg C name T app
                       (sleep 4 (snd (upload_file_body env cfg C name T app w)))) of
             Inr d \<Rightarrow>
               snd (upload_file_body env cfg C name T app
                      (sleep 4 (snd (upload_file_body env cfg C name T app w))))
           | Inl e2 \<Rightarrow>
               snd (upload_file_body env cfg C name T app
                      (sleep 4 (snd (upload_file_body env cfg C name T app
                         (sleep 4 (snd (upload_file_body env cfg C name T app w)))))))))"
    by (rule upload_file_attempts)
next
  assume "\<not> fst (validate_file env cfg C T name)"
  then show "\<exists>e. fst (upload_file env cfg C name T app w) = Inl e"
    and "calls (snd (upload_file env cfg C name T app w)) =
        calls w @ [ValidateFile, Sleep 4, ValidateFile, Sleep 4, ValidateFile]"
    by (simp_all add: upload_file_invalid three_validations)
qed

theorem upload_file_retries_whole_body_witness:
  "calls (snd (upload_file exe_env limit_config [1] ''a.pdf'' ''application/pdf'' 7 empty_world)) =
     [ValidateFile, Sleep 4, ValidateFile, Sleep 4, ValidateFile] \<and>
   take 4 (calls (snd (upload_file pdf_env limit_config [1, 2, 3] ''report.pdf''
      ''application/pdf'' 7 faulty_world))) =
     [ValidateFile, PutObject report_path, Sleep 4, ValidateFile]"
proof -
  let ?B = "upload_file_body pdf_env limit_config [1, 2, 3] ''report.pdf'' ''application/pdf'' 7"
  define w1 where "w1 = sleep 4 (snd (?B faulty_world))"
  define w2 where "w2 = sleep 4 (snd (?B w1))"
  note whole = upload_file_retries_whole_body
    [where env = pdf_env and cfg = limit_config and C = "[1, 2, 3]" and name = "''report.pdf''"
      and T = "''application/pdf''" and app = 7]
  have invalid: "calls (snd (upload_file exe_env limit_config [1] ''a.pdf'' ''application/pdf'' 7
      empty_world)) = [ValidateFile, Sleep 4, ValidateFile, Sleep 4, ValidateFile]"
    using upload_file_retries_whole_body
      [where env = exe_env and cfg = limit_config and C = "[1]" and name = "''a.pdf''"
        and T = "''application/pdf''" and app = 7 and w = empty_world,
        THEN conjunct2, THEN conjunct2]
      exe_upload_invalid
    by (simp add: empty_world_def)
  obtain e where f1: "fst (?B w1) = Inl e"
    using upload_file_body_fails [of pdf_env limit_config "[1, 2, 3]" "''report.pdf''"
        "''application/pdf''" 7 w1]
    by (cases "fst (?B w1)") auto
  from whole [where w = faulty_world, THEN conjunct2, THEN conjunct1]
  have last: "snd (upload_file pdf_env limit_config [1, 2, 3] ''report.pdf'' ''application/pdf'' 7
      faulty_world) = snd (?B w2)"
    by (simp add: upload_faulty_attempt(1) f1 w1_def [symmetric] w2_def [symmetric])
  from whole [where w = w1, THEN conjunct1] obtain r2
    where c2: "calls (snd (?B w1)) = calls w1 @ ValidateFile # r2" by blast
  from whole [where w = w2, THEN conjunct1] obtain r3
    where c3: "calls (snd (?B w2)) = calls w2 @ ValidateFile # r3" by blast
  have c1: "calls w1 = [ValidateFile, PutObject report_path, Sleep 4]"
    by (simp add: w1_def sleep_def record_call_def upload_faulty_attempt(2))
  have "calls w2 = calls (snd (?B w1)) @ [Sleep 4]"
    by (simp add: w2_def sleep_def record_call_def)
  with c1 c2 c3 last have "take 4 (calls (snd (upload_file pdf_env limit_config [1, 2, 3]
      ''report.pdf'' ''application/pdf'' 7 faulty_world))) =
     [ValidateFile, PutObject report_path, Sleep 4, ValidateFile]"
    by simp
  with invalid show ?thesis by simp
qed

subsection \<open>The record an upload builds\<close>

lemma report_save_called:
  "SaveDocument report_document \<in> set (calls (snd (upload_file pdf_env limit_config [1, 2, 3]
     ''report.pdf'' ''application/pdf'' 7 empty_world)))"
  using upload_file_keeps_first_attempt [of pdf_env limit_config "[1, 2, 3]" "''report.pdf''"
      "''application/pdf''" 7 empty_world]
  by (auto simp add: upload_report_attempt(2))

lemma empty_world_calls: "calls empty_world = []"
  by (simp add: empty_world_def)

text \<open>
  \<^bold>\<open>C1\<close>, as stated (every document record the system produces has the storage path
  \<^verbatim>\<open>documents/{application_id}/{id}/{sanitized_name}\<close>, which cannot be set independently and
  never contains \<^verbatim>\<open>..\<close>), fails for the records the constructor produces: it takes a
  \<^verbatim>\<open>storage_path\<close> argument as given (the test suite passes one without the id), and
  without the argument it derives \<^verbatim>\<open>documents/{id}/{safe_name}\<close>, where dots are kept.
\<close>

theorem Document_init_storage_path_counterexample:
  "storage_path (Document_init 2 epoch_utc test_kwargs) =
     ''documents/00000000-0000-0000-0000-000000000007/test_document.pdf'' \<and>
   storage_path (Document_init 2 epoch_utc test_kwargs) \<noteq>
     ''documents/'' @ str_uuid (application_id (Document_init 2 epoch_utc test_kwargs)) @ ''/'' @
       str_uuid (doc_id (Document_init 2 epoch_utc test_kwargs)) @ ''/'' @
       file_name (Document_init 2 epoch_utc test_kwargs) \<and>
   storage_path (Document_init 2 epoch_utc
       (test_kwargs\<lparr>kw_storage_path := None, kw_file_name := ''a..b''\<rparr>)) =
     ''documents/00000000-0000-0000-0000-000000000001/a..b'' \<and>
   str_in ''..'' ''documents/00000000-0000-0000-0000-000000000001/a..b''"
  by (simp add: Document_init_def test_kwargs_def str_uuid_1 str_uuid_7 safe_filename_def
      safe_char_def startswith_def)

text \<open>
  \<^bold>\<open>C1\<close>, amended: for every document record that \<^verbatim>\<open>upload_file\<close> builds and calls
  \<^verbatim>\<open>save()\<close> on, the storage path is \<^verbatim>\<open>documents/{application_id}/{id}/{file_name}\<close> with the
  application id of the request and the sanitized file name, and it does not contain
  \<^verbatim>\<open>..\<close>. (The constructor itself accepts any storage path.)
\<close>

theorem upload_file_storage_path:
  assumes "SaveDocument d \<in> set (calls (snd (upload_file env cfg C name T app w)))"
    and "SaveDocument d \<notin> set (calls w)"
  shows "storage_path d =
           ''documents/'' @ str_uuid (application_id d) @ ''/'' @ str_uuid (doc_id d) @ ''/'' @
           file_name d \<and>
         application_id d = app \<and>
         file_name d = sanitize_filename name \<and>
         \<not> str_in ''..'' (storage_path d)"
  using upload_file_saves [OF assms] Document_validate_accepts(8) [of d] by simp

theorem upload_file_storage_path_witness:
  "SaveDocument report_document \<in> set (calls (snd (upload_file pdf_env limit_config [1, 2, 3]
     ''report.pdf'' ''application/pdf'' 7 empty_world))) \<and>
   storage_path report_document =
     ''documents/00000000-0000-0000-0000-000000000007/00000000-0000-0000-0000-000000000000/report.pdf'' \<and>
   application_id report_document = 7 \<and>
   file_name report_document = ''report.pdf'' \<and>
   \<not> str_in ''..'' (storage_path report_document)"
  using upload_file_storage_path [OF report_save_called] report_save_called
  by (simp add: empty_world_calls report_document_def report_path_def sanitize_report)

text \<open>
  \<^bold>\<open>C10\<close>: every record \<^verbatim>\<open>Document.validate\<close> accepts has a size of at most
  \<open>50 * 1024 * 1024\<close> bytes, an allow-listed MIME type and a non-empty file name without
  \<^verbatim>\<open>/\<close> and \<^verbatim>\<open>..\<close>; every record \<^verbatim>\<open>upload_file\<close> calls \<^verbatim>\<open>save()\<close> on was accepted, with the byte
  length of the content as its size; so an upload of more than 50MB fails and never gets
  as far as \<^verbatim>\<open>save()\<close>, whatever limit the validator is configured with.
\<close>

theorem Document_validate_bounds:
  "(Document_validate d = Inr True \<longrightarrow>
      0 \<le> file_size d \<and> file_size d \<le> 50 * 1024 * 1024 \<and>
      mime_type d \<in> set ALLOWED_MIME_TYPES \<and>
      file_name d \<noteq> [] \<and> \<not> str_in ''/'' (file_name d) \<and> \<not> str_in ''..'' (file_name d)) \<and>
   (SaveDocument r \<in> set (calls (snd (upload_file env cfg C name T app w))) \<and>
    SaveDocument r \<notin> set (calls w) \<longrightarrow>
      Document_validate r = Inr True \<and> file_size r = int (length C)) \<and>
   (50 * 1024 * 1024 < length C \<longrightarrow>
      (\<exists>e. fst (upload_file env cfg C name T app w) = Inl e) \<and>
      (\<forall>x. SaveDocument x \<in> set (calls (snd (upload_file env cfg C name T app w))) \<longrightarrow>
           SaveDocument x \<in> set (calls w)))"
proof (intro conjI impI allI)
  assume "Document_validate d = Inr True"
  from Document_validate_accepts [OF this]
  show "0 \<le> file_size d" "file_size d \<le> 50 * 1024 * 1024"
    "mime_type d \<in> set ALLOWED_MIME_TYPES" "file_name d \<noteq> []"
    "\<not> str_in ''/'' (file_name d)" "\<not> str_in ''..'' (file_name d)"
    by simp_all
next
  assume "SaveDocument r \<in> set (calls (snd (upload_file env cfg C name T app w))) \<and>
    SaveDocument r \<notin> set (calls w)"
  then have "SaveDocument r \<in> set (calls (snd (upload_file env cfg C name T app w)))"
    and "SaveDocument r \<notin> set (calls w)" by simp_all
  from upload_file_saves [OF this]
  show "Document_validate r = Inr True" "file_size r = int (length C)" by simp_all
next
  assume "50 * 1024 * 1024 < length C"
  show "\<exists>e. fst (upload_file env cfg C name T app w) = Inl e"
    by (rule upload_file_fails)
next
  fix x
  assume big: "50 * 1024 * 1024 < length C"
    and m: "SaveDocument x \<in> set (calls (snd (upload_file env cfg C name T app w)))"
  show "SaveDocument x \<in> set (calls w)"
  proof (rule ccontr)
    assume "SaveDocument x \<notin> set (calls w)"
    from upload_file_saves [OF m this]
    have "Document_validate x = Inr True" and "file_size x = int (length C)" by simp_all
    with Document_validate_accepts(6) [of x] big show False by simp
  qed
qed

theorem Document_validate_bounds_witness:
  "file_size report_document = 3 \<and>
   mime_type report_document \<in> set ALLOWED_MIME_TYPES \<and>
   file_name report_document = ''report.pdf'' \<and>
   Document_validate report_document = Inr True \<and>
   SaveDocument report_document \<in> set (calls (snd (upload_file pdf_env limit_config [1, 2, 3]
       ''report.pdf'' ''application/pdf'' 7 empty_world))) \<and>
   (\<exists>e. fst (upload_file pdf_env limit_config (replicate (50 * 1024 * 1024 + 1) 0)
       ''report.pdf'' ''application/pdf'' 7 empty_world) = Inl e) \<and>
   (\<forall>x. SaveDocument x \<notin> set (calls (snd (upload_file pdf_env limit_config
       (replicate (50 * 1024 * 1024 + 1) 0) ''report.pdf'' ''application/pdf'' 7 empty_world))))"
proof -
  have big: "50 * 1024 * 1024 < length (replicate (50 * 1024 * 1024 + 1) (0::8 word))"
    by simp
  note small = Document_validate_bounds
      [where d = report_document and r = report_document and env = pdf_env and cfg = limit_config
        and C = "[1, 2, 3]" and name = "''report.pdf''" and T = "''application/pdf''" and app = 7
        and w = empty_world]
  note large = Document_validate_bounds
      [where d = report_document and r = report_document and env = pdf_env and cfg = limit_config
        and C = "replicate (50 * 1024 * 1024 + 1) 0" and name = "''report.pdf''"
        and T = "''application/pdf''" and app = 7 and w = empty_world]
  from small [THEN conjunct2, THEN conjunct1] report_save_called
  have ok: "Document_validate report_document = Inr True"
    by (simp add: empty_world_calls)
  from small [THEN conjunct1] ok
  have bounds: "mime_type report_document \<in> set ALLOWED_MIME_TYPES" by simp
  from large [THEN conjunct2, THEN conjunct2] big
  have over: "(\<exists>e. fst (upload_file pdf_env limit_config (replicate (50 * 1024 * 1024 + 1) 0)
       ''report.pdf'' ''application/pdf'' 7 empty_world) = Inl e) \<and>
   (\<forall>x. SaveDocument x \<notin> set (calls (snd (upload_file pdf_env limit_config
       (replicate (50 * 1024 * 1024 + 1) 0) ''report.pdf'' ''application/pdf'' 7 empty_world))))"
    by (simp add: empty_world_calls)
  from ok bounds over report_save_called show ?thesis
    by (simp add: report_document_def)
qed

subsection \<open>Downloads\<close>

lemma next_fault_record_call [simp]: "fst (next_fault (record_call c w)) = fst (next_fault w)"
  by (simp add: next_fault_def record_call_def split: list.splits)

lemma download_file_body_s3: "s3_objects (snd (download_file_body env p w)) = s3_objects w"
  by (auto simp add: download_file_body_def get_object_def next_fault_def record_call_def Let_def
      split: prod.splits option.splits list.splits sum.splits)

lemma sleep_s3: "s3_objects (sleep s w) = s3_objects w"
  by (simp add: sleep_def record_call_def)

lemma download_file_body_integrity:
  assumes "download_file_body env p w = (Inl (ValueError ''File integrity check failed''), w')"
  shows "\<exists>obj h. s3_objects w p = Some obj \<and> map_of (obj_metadata obj) ''file_hash'' = Some h \<and>
           h \<noteq> [] \<and> h \<noteq> generate_file_hash env (obj_body obj)"
  using assms
  by (auto simp add: download_file_body_def get_object_def next_fault_def record_call_def Let_def
      split: prod.splits option.splits list.splits sum.splits if_splits)

lemma download_file_integrity:
  assumes "fst (download_file env p w) = Inl (RetryError (ValueError ''File integrity check failed''))"
  shows "\<exists>obj h. s3_objects w p = Some obj \<and> map_of (obj_metadata obj) ''file_hash'' = Some h \<and>
           h \<noteq> [] \<and> h \<noteq> generate_file_hash env (obj_body obj)"
proof -
  let ?I = "\<lambda>w0 :: world. s3_objects w0 = s3_objects w"
  from assms have run: "retrying 3 (wait_exponential 1 4 10) 1 (download_file_body env p) w =
      (Inl (RetryError (ValueError ''File integrity check failed'')), snd (download_file env p w))"
    by (simp add: download_file_def retry_def prod_eq_iff)
  have "\<exists>w0. ?I w0 \<and>
     (case Inl (RetryError (ValueError ''File integrity check failed'')) :: exn + bytes \<times> string of
        Inr v \<Rightarrow> download_file_body env p w0 = (Inr v, snd (download_file env p w))
      | Inl x \<Rightarrow> \<exists>e. x = RetryError e \<and>
           download_file_body env p w0 = (Inl e, snd (download_file env p w)))"
  proof (rule retrying_result [OF run, where I = ?I])
    show "s3_objects w = s3_objects w" ..
  next
    fix w0 w1 :: world and e
    assume "s3_objects w0 = s3_objects w" and "download_file_body env p w0 = (Inl e, w1)"
    with download_file_body_s3 [of env p w0] show "s3_objects w1 = s3_objects w" by simp
  next
    fix w0 :: world and s
    assume "s3_objects w0 = s3_objects w"
    then show "s3_objects (sleep s w0) = s3_objects w" by (simp add: sleep_s3)
  qed
  then obtain w0 where "s3_objects w0 = s3_objects w"
    and "download_file_body env p w0 =
      (Inl (ValueError ''File integrity check failed''), snd (download_file env p w))"
    by auto
  with download_file_body_integrity [of env p w0] show ?thesis by simp
qed

lemma download_file_body_unhashed:
  assumes "\<not> invalid_storage_path p" and "s3_objects w p = Some obj"
    and "map_of (obj_metadata obj) ''file_hash'' = None" and "fst (next_fault w) = None"
  shows "fst (download_file_body env p w) = Inr (obj_body obj, obj_content_type obj)"
  using assms
  by (auto simp add: download_file_body_def get_object_def next_fault_def record_call_def Let_def
      split: prod.splits option.splits list.splits)

lemma download_file_unhashed:
  assumes "\<not> invalid_storage_path p" and "s3_objects w p = Some obj"
    and "map_of (obj_metadata obj) ''file_hash'' = None" and "fst (next_fault w) = None"
  shows "fst (download_file env p w) = Inr (obj_body obj, obj_content_type obj)"
proof -
  from download_file_body_unhashed [OF assms, of env]
  have "download_file_body env p w =
      (Inr (obj_body obj, obj_content_type obj), snd (download_file_body env p w))"
    by (simp add: prod_eq_iff)
  from retrying_Inr_now [where fn = "download_file_body env p", OF this] show ?thesis
    unfolding download_file_def retry_def by simp
qed

lemma download_file_body_mismatch:
  assumes "\<not> invalid_storage_path p" and "s3_objects w p = Some obj"
    and "map_of (obj_metadata obj) ''file_hash'' = Some h" and "h \<noteq> []"
    and "h \<noteq> generate_file_hash env (obj_body obj)" and "faults w = []"
  shows "download_file_body env p w =
           (Inl (ValueError ''File integrity check failed''), record_call (GetObject p) w)"
  using assms
  by (simp add: download_file_body_def get_object_def next_fault_def record_call_def Let_def)

lemma download_file_mismatch:
  assumes "\<not> invalid_storage_path p" and "s3_objects w p = Some obj"
    and "map_of (obj_metadata obj) ''file_hash'' = Some h" and "h \<noteq> []"
    and "h \<noteq> generate_file_hash env (obj_body obj)" and "faults w = []"
  shows "fst (download_file env p w) = Inl (RetryError (ValueError ''File integrity check failed''))"
proof -
  let ?I = "\<lambda>w0 :: world. s3_objects w0 = s3_objects w \<and> faults w0 = []"
  have "retry (download_file_body env p) w =
      (Inl (RetryError (ValueError ''File integrity check failed'')),
       record_call (GetObject p) (sleep 4 (record_call (GetObject p)
         (sleep 4 (record_call (GetObject p) w)))))"
  proof (rule retry_failing_while [where I = ?I])
    fix w0 :: world
    assume "s3_objects w0 = s3_objects w \<and> faults w0 = []"
    with assms show "download_file_body env p w0 =
        (Inl (ValueError ''File integrity check failed''), record_call (GetObject p) w0)"
      by (intro download_file_body_mismatch) simp_all
  next
    fix w0 :: world
    assume "s3_objects w0 = s3_objects w \<and> faults w0 = []"
    then show "s3_objects (record_call (GetObject p) w0) = s3_objects w \<and>
        faults (record_call (GetObject p) w0) = []"
      by (simp add: record_call_def)
  next
    fix w0 :: world and s
    assume "s3_objects w0 = s3_objects w \<and> faults w0 = []"
    then show "s3_objects (sleep s w0) = s3_objects w \<and> faults (sleep s w0) = []"
      by (simp add: sleep_def record_call_def)
  next
    from assms show "s3_objects w = s3_objects w \<and> faults w = []" by simp
  qed
  then show ?thesis by (simp add: download_file_def)
qed

lemma report_path_valid: "\<not> invalid_storage_path report_path"
  by (simp add: invalid_storage_path_def report_path_def startswith_def)

text \<open>
  \<^bold>\<open>C9\<close>: for every stored object whose metadata has no \<^verbatim>\<open>file_hash\<close> entry,
  \<^verbatim>\<open>download_file\<close> returns the fetched bytes (when the fetch goes through) and in no case
  an integrity error; an integrity error arises only when a stored hash is present and
  differs from the hash of the fetched bytes.
\<close>

theorem download_file_hash_check:
  "(\<not> invalid_storage_path p \<and> s3_objects w p = Some obj \<and>
    map_of (obj_metadata obj) ''file_hash'' = None \<and> fst (next_fault w) = None \<longrightarrow>
      fst (download_file env p w) = Inr (obj_body obj, obj_content_type obj)) \<and>
   (s3_objects w p = Some obj \<and> map_of (obj_metadata obj) ''file_hash'' = None \<longrightarrow>
      fst (download_file env p w) \<noteq>
        Inl (RetryError (ValueError ''File integrity check failed''))) \<and>
   (fst (download_file env p w) =
      Inl (RetryError (ValueError ''File integrity check failed'')) \<longrightarrow>
      (\<exists>stored h. s3_objects w p = Some stored \<and>
         map_of (obj_metadata stored) ''file_hash'' = Some h \<and>
         h \<noteq> generate_file_hash env (obj_body stored)))"
proof (intro conjI impI)
  assume "\<not> invalid_storage_path p \<and> s3_objects w p = Some obj \<and>
    map_of (obj_metadata obj) ''file_hash'' = None \<and> fst (next_fault w) = None"
  then show "fst (download_file env p w) = Inr (obj_body obj, obj_content_type obj)"
    by (intro download_file_unhashed) simp_all
next
  assume a: "s3_objects w p = Some obj \<and> map_of (obj_metadata obj) ''file_hash'' = None"
  show "fst (download_file env p w) \<noteq>
      Inl (RetryError (ValueError ''File integrity check failed''))"
  proof
    assume "fst (download_file env p w) =
      Inl (RetryError (ValueError ''File integrity check failed''))"
    from download_file_integrity [OF this] a show False by auto
  qed
next
  assume "fst (download_file env p w) =
      Inl (RetryError (ValueError ''File integrity check failed''))"
  from download_file_integrity [OF this]
  show "\<exists>stored h. s3_objects w p = Some stored \<and>
         map_of (obj_metadata stored) ''file_hash'' = Some h \<and>
         h \<noteq> generate_file_hash env (obj_body stored)"
    by blast
qed

theorem download_file_hash_check_witness:
  "fst (download_file pdf_env report_path unhashed_world) = Inr ([1, 2, 3], ''application/pdf'') \<and>
   fst (download_file pdf_env report_path tampered_world) =
     Inl (RetryError (ValueError ''File integrity check failed'')) \<and>
   (\<exists>stored h. s3_objects tampered_world report_path = Some stored \<and>
      map_of (obj_metadata stored) ''file_hash'' = Some h \<and>
      h \<noteq> generate_file_hash pdf_env (obj_body stored))"
proof -
  have u: "s3_objects unhashed_world report_path = Some unhashed_object"
    "map_of (obj_metadata unhashed_object) ''file_hash'' = None"
    "fst (next_fault unhashed_world) = None"
    by (simp_all add: unhashed_world_def unhashed_object_def empty_world_def next_fault_def)
  have t: "s3_objects tampered_world report_path = Some tampered_object"
    "map_of (obj_metadata tampered_object) ''file_hash'' = Some ''00000000''"
    "''00000000'' \<noteq> generate_file_hash pdf_env (obj_body tampered_object)"
    "faults tampered_world = []"
    by (simp_all add: tampered_world_def tampered_object_def unhashed_object_def empty_world_def
        generate_file_hash_def pdf_env_simps)
  have m: "fst (download_file pdf_env report_path tampered_world) =
      Inl (RetryError (ValueError ''File integrity check failed''))"
    by (rule download_file_mismatch [OF report_path_valid t(1,2) _ t(3,4)]) simp
  from download_file_hash_check [of report_path unhashed_world unhashed_object pdf_env]
    download_file_hash_check [of report_path tampered_world tampered_object pdf_env]
  show ?thesis
    using report_path_valid u m by (simp add: unhashed_object_def)
qed

subsection \<open>The lifecycle of a record\<close>





text \<open>
  A record found by \<^verbatim>\<open>delete_file\<close>: each of the three attempts deletes the object, sets the
  status and fails in \<^verbatim>\<open>save()\<close>.
\<close>

lemma delete_file_body_stored:
  "fst (delete_file_body report_path (sleep 4 (snd (delete_file_body report_path
      (sleep 4 (snd (delete_file_body report_path stored_world))))))) = Inl save_type_error"
  "fst (delete_file_body report_path (sleep 4 (snd (delete_file_body report_path stored_world)))) =
     Inl save_type_error"
  "fst (delete_file_body report_path stored_world) = Inl save_type_error"
  by (simp_all add: delete_file_body_def report_path_valid delete_object_def objects_first_def
      save_def next_fault_def record_call_def sleep_def stored_world_def empty_world_def
      report_document_def)





end
